theory Spec2Isabelle
  imports Main "HOL-Library.Sublist"
begin

chapter \<open>The model: a shallow embedding of the canary analysis plugin\<close>

text \<open>
  The plugin is written in Go. Go strings are byte sequences, modelled as \<open>string\<close>
  (a list of \<open>char\<close>, one per byte), with \<open>len\<close> as \<open>length\<close>. Go's \<open>int\<close> is
  modelled as \<open>int\<close>: indices and counters stay below the length of a string or the
  number of attempts, far from the 64-bit limits. A \<open>time.Duration\<close> is an \<open>int\<close> of
  nanoseconds.

  Whatever the plugin reads from outside (the cluster, the model API, the agent, the
  clock, the random jitter of the backoff library) is a field of a record of the
  environment, and every function that talks to the outside returns the list of the
  external calls it made next to its result. Functions of Go's standard library and of
  third-party libraries are not part of the repository: the small ones are modelled from
  their documentation, and the large ones (JSON decoding and encoding, duration parsing,
  white space trimming) are fields of the environment as well, so that every theorem
  holds whatever they compute.
\<close>

section \<open>Panics and results\<close>

text \<open>
  A run-time panic is a value. A slice expression \<open>s[lo:hi]\<close> on a string panics unless
  \<open>0 \<le> lo \<le> hi \<le> len(s)\<close>; dereferencing a nil pointer panics.
\<close>

datatype panic = SliceBoundsOutOfRange int int | NilPointerDereference

definition go_slice :: "string \<Rightarrow> int \<Rightarrow> int \<Rightarrow> panic + string" where
  "go_slice s lo hi =
     (if 0 \<le> lo \<and> lo \<le> hi \<and> hi \<le> int (length s)
      then Inr (take (nat (hi - lo)) (drop (nat lo) s))
      else Inl (SliceBoundsOutOfRange lo hi))"

text \<open>
  What a call of a function of the plugin comes to: it returns a value, it panics, or
  (for the functions that run the retry loop, which the model gives fuel) the fuel runs
  out before it returns.
\<close>

datatype 'a outcome = Return 'a | Panic panic | OutOfFuel

section \<open>Errors\<close>

text \<open>
  A structured error detail of the model API is a \<open>map[string]any\<close>; the plugin only
  asks whether an entry is a string, so every other dynamic type is \<open>AnyOther\<close>.
\<close>

datatype any_value = AnyString string | AnyOther

type_synonym detail = "(string \<times> any_value) list"

text \<open>
  \<open>v, ok := detail[key].(string)\<close>: the entry when it is present and a string, else the
  empty string and \<open>false\<close>.
\<close>

definition string_field :: "detail \<Rightarrow> string \<Rightarrow> string \<times> bool" where
  "string_field d key =
     (case map_of d key of Some (AnyString v) \<Rightarrow> (v, True) | _ \<Rightarrow> ([], False))"

text \<open>
  The error values the plugin meets or builds. \<open>APIError code message status details\<close> is
  a \<open>genai.APIError\<close>; \<open>NotFoundError\<close> is the Kubernetes not-found status error;
  \<open>ErrorString\<close> is any other error, by its text; \<open>Errorf_w\<close> and \<open>Errorf_v\<close> are
  \<open>fmt.Errorf\<close> with a prefix and an error formatted by \<open>%w\<close> (the chain is kept) or
  by \<open>%v\<close> (only the text is kept); \<open>ErrMaxRetries attempt lastErr\<close> is
  \<open>fmt.Errorf("max retries exceeded after %d attempts, last error: %v", attempt, lastErr)\<close>;
  \<open>ErrContext\<close> is \<open>ctx.Err()\<close> of a cancelled context.
\<close>

datatype go_error =
    APIError int string string "detail list"
  | NotFoundError string
  | ErrorString string
  | Errorf_w string go_error
  | Errorf_v string go_error
  | ErrMaxRetries nat "go_error option"
  | ErrContext

text \<open>\<open>errors.IsNotFound\<close> looks through the \<open>%w\<close> chain.\<close>

fun IsNotFound :: "go_error \<Rightarrow> bool" where
  "IsNotFound (NotFoundError r) = True"
| "IsNotFound (Errorf_w msg err) = IsNotFound err"
| "IsNotFound other = False"

section \<open>Response extractor: \<open>extractFirstJSON\<close> (internal/plugin/utils.go)\<close>

text \<open>
  \<open>strings.Index(s, "{")\<close> with a one-byte needle: the index of the first occurrence of
  the byte, or \<open>-1\<close>.
\<close>

definition strings_IndexByte :: "string \<Rightarrow> char \<Rightarrow> int" where
  "strings_IndexByte s c =
     (if c \<in> set s then int (length (takeWhile (\<lambda>x. x \<noteq> c) s)) else - 1)"

text \<open>
  The loop \<open>for i := start; i < len(s); i++\<close> of \<open>extractFirstJSON\<close>, carrying \<open>depth\<close>;
  \<open>s[start : i+1]\<close> is \<open>take (Suc i - start) (drop start s)\<close>, in range since
  \<open>start \<le> i < len(s)\<close>. Falling out of the loop returns the empty string.
\<close>

function extract_scan :: "string \<Rightarrow> nat \<Rightarrow> nat \<Rightarrow> int \<Rightarrow> string" where
  "extract_scan s start i depth =
     (if i < length s then
        (if s ! i = CHR ''{'' then extract_scan s start (Suc i) (depth + 1)
         else if s ! i = CHR ''}'' then
           (if depth - 1 = 0 then take (Suc i - start) (drop start s)
            else extract_scan s start (Suc i) (depth - 1))
         else extract_scan s start (Suc i) depth)
      else [])"
  by pat_completeness auto
termination
  by (relation "measure (\<lambda>(s, start, i, depth). length s - i)") auto

declare extract_scan.simps [simp del]

definition extractFirstJSON :: "string \<Rightarrow> string" where
  "extractFirstJSON s =
     (let start = strings_IndexByte s CHR ''{'' in
      if start = - 1 then [] else extract_scan s (nat start) (nat start) 0)"

subsection \<open>The extractor as the specification words it\<close>

text \<open>
  The brace-nesting count of a text is the number of its opening braces minus the number
  of its closing braces. Starting at the first opening brace, the specification returns
  the text up to the first position where the count is back to zero, that is the shortest
  non-empty prefix with nesting zero, and the empty string when there is no opening brace
  or no such prefix.
\<close>

definition nesting :: "string \<Rightarrow> int" where
  "nesting xs = int (count_list xs CHR ''{'') - int (count_list xs CHR ''}'')"

definition first_balanced_object :: "string \<Rightarrow> string" where
  "first_balanced_object s =
     (let t = dropWhile (\<lambda>c. c \<noteq> CHR ''{'') s in
      case find (\<lambda>p. nesting p = 0) (tl (prefixes t)) of
        None \<Rightarrow> []
      | Some p \<Rightarrow> p)"

section \<open>Delegation log splitting: \<open>findIndex\<close> and \<open>splitLogs\<close> (A2A client)\<close>

text \<open>
  \<open>findIndex\<close> is the loop \<open>for i := 0; i <= len(s)-len(substr); i++\<close> comparing the
  window \<open>s[i:i+len(substr)]\<close> with \<open>substr\<close>; it returns \<open>-1\<close> when the loop ends.
\<close>

function findIndex_loop :: "string \<Rightarrow> string \<Rightarrow> int \<Rightarrow> panic + int" where
  "findIndex_loop s substr i =
     (if i \<le> int (length s) - int (length substr) then
        (case go_slice s i (i + int (length substr)) of
           Inl p \<Rightarrow> Inl p
         | Inr window \<Rightarrow>
             if window = substr then Inr i else findIndex_loop s substr (i + 1))
      else Inr (- 1))"
  by pat_completeness auto
termination
  by (relation "measure (\<lambda>(s, substr, i). nat (int (length s) - int (length substr) - i + 1))")
    auto

declare findIndex_loop.simps [simp del]

definition findIndex :: "string \<Rightarrow> string \<Rightarrow> panic + int" where
  "findIndex s substr = findIndex_loop s substr 0"

definition stableMarker :: string where
  "stableMarker = ''--- STABLE LOGS ---''"

definition canaryMarker :: string where
  "canaryMarker = ''--- CANARY LOGS ---''"

text \<open>
  \<open>splitLogs\<close>: both indices are computed first; when one is \<open>-1\<close> the whole text is
  the stable logs. Otherwise the two slice expressions
  \<open>logsContext[stableIdx+len(stableMarker) : canaryIdx]\<close> and
  \<open>logsContext[canaryIdx+len(canaryMarker):]\<close> are evaluated in this order.
\<close>

definition splitLogs :: "string \<Rightarrow> panic + (string \<times> string)" where
  "splitLogs logsContext =
     (case findIndex logsContext stableMarker of
        Inl p \<Rightarrow> Inl p
      | Inr stableIdx \<Rightarrow>
     (case findIndex logsContext canaryMarker of
        Inl p \<Rightarrow> Inl p
      | Inr canaryIdx \<Rightarrow>
          if stableIdx = - 1 \<or> canaryIdx = - 1 then Inr (logsContext, [])
          else
            (case go_slice logsContext (stableIdx + int (length stableMarker)) canaryIdx of
               Inl p \<Rightarrow> Inl p
             | Inr stableLogs \<Rightarrow>
            (case go_slice logsContext (canaryIdx + int (length canaryMarker))
                     (int (length logsContext)) of
               Inl p \<Rightarrow> Inl p
             | Inr canaryLogs \<Rightarrow> Inr (stableLogs, canaryLogs)))))"

text \<open>An occurrence of a text in another, at an index: for stating what \<open>findIndex\<close> finds.\<close>

definition occurs_at :: "string \<Rightarrow> string \<Rightarrow> nat \<Rightarrow> bool" where
  "occurs_at s sub k = (k + length sub \<le> length s \<and> take (length sub) (drop k s) = sub)"

section \<open>Quota-aware retry: \<open>retryWithBackoff\<close> (internal/plugin/utils.go)\<close>

definition typeURLRetryInfo :: string where
  "typeURLRetryInfo = ''type.googleapis.com/google.rpc.RetryInfo''"

definition typeURLQuotaFailure :: string where
  "typeURLQuotaFailure = ''type.googleapis.com/google.rpc.QuotaFailure''"

definition StatusTooManyRequests :: int where
  "StatusTooManyRequests = 429"

definition second :: int where
  "second = 1000000000"

subsection \<open>The backoff library (github.com/cenkalti/backoff/v5)\<close>

text \<open>
  The library is a dependency, not part of the repository; this is its
  \<open>ExponentialBackOff\<close> and its \<open>Retry\<close> as version 5 documents and implements them.
  The plugin sets \<open>Multiplier = 2.0\<close> and \<open>RandomizationFactor = 0.1\<close> once and never
  changes them, so the record keeps the three fields that vary. \<open>Reset\<close> sets the current
  interval to the initial one. \<open>NextBackOff\<close> draws the wait at random within
  \<open>RandomizationFactor\<close> of the current interval, then moves the current interval on:
  to \<open>MaxInterval\<close> when \<open>currentInterval \<ge> MaxInterval / Multiplier\<close>, else to
  \<open>currentInterval * Multiplier\<close> (with the multiplier 2, in integers). The random draw
  is the argument \<open>rnd\<close>: the wait as a function of the current interval.
\<close>

record ExponentialBackOff =
  InitialInterval :: int
  MaxInterval :: int
  currentInterval :: int

definition Reset :: "ExponentialBackOff \<Rightarrow> ExponentialBackOff" where
  "Reset b = b\<lparr>currentInterval := InitialInterval b\<rparr>"

definition incrementCurrentInterval :: "ExponentialBackOff \<Rightarrow> ExponentialBackOff" where
  "incrementCurrentInterval b =
     (if 2 * currentInterval b \<ge> MaxInterval b
      then b\<lparr>currentInterval := MaxInterval b\<rparr>
      else b\<lparr>currentInterval := 2 * currentInterval b\<rparr>)"

definition NextBackOff ::
  "(int \<Rightarrow> int) \<Rightarrow> ExponentialBackOff \<Rightarrow> int \<times> ExponentialBackOff" where
  "NextBackOff rnd b =
     (let b1 = (if currentInterval b = 0 then b\<lparr>currentInterval := InitialInterval b\<rparr> else b);
          next = rnd (currentInterval b1)
      in (next, incrementCurrentInterval b1))"

definition DefaultMaxElapsedTime :: int where
  "DefaultMaxElapsedTime = 15 * 60 * second"

text \<open>
  What the retry loop reads from outside: how long the \<open>k\<close>-th call of the operation
  takes, the \<open>k\<close>-th random draw of the backoff, and \<open>time.ParseDuration\<close> of the standard
  library (\<open>None\<close> for a parse error).
\<close>

record runtime =
  op_duration :: "nat \<Rightarrow> int"
  jitter :: "nat \<Rightarrow> int \<Rightarrow> int"
  ParseDuration :: "string \<Rightarrow> int option"

text \<open>
  A context is the time (in nanoseconds after the start of the retry) at which it is
  cancelled, \<open>None\<close> for \<open>context.Background()\<close>, which never is.
  \<open>ctx_done ctx t\<close>: \<open>ctx.Err() != nil\<close> at time \<open>t\<close>.
\<close>

definition ctx_done :: "int option \<Rightarrow> int \<Rightarrow> bool" where
  "ctx_done ctx t = (case ctx of None \<Rightarrow> False | Some c \<Rightarrow> c \<le> t)"

subsection \<open>The state of one call of \<open>retryWithBackoff\<close>\<close>

text \<open>
  The variables the closure \<open>operationWithLogging\<close> captures and updates (\<open>attempt\<close>,
  \<open>lastErr\<close>, \<open>backoffConfig\<close>), and what the call does to the outside: the time
  \<open>elapsed\<close> since \<open>Retry\<close> started, the number of random \<open>draws\<close>, and the \<open>waits\<close>
  slept between attempts, in order.
\<close>

record retry_state =
  attempt :: nat
  lastErr :: "go_error option"
  backoffConfig :: ExponentialBackOff
  elapsed :: int
  draws :: nat
  waits :: "int list"

text \<open>
  What the closure returns to \<open>Retry\<close>: \<open>nil\<close>, the error itself (retry), or the error
  wrapped by \<open>backoff.Permanent\<close> (do not retry).
\<close>

datatype op_outcome = OpSuccess | OpRetryable go_error | OpPermanent go_error

text \<open>
  The loop over \<open>apiErr.Details\<close>, carrying \<open>apiWaitTime\<close>: a \<open>RetryInfo\<close> detail whose
  \<open>retryDelay\<close> is a non-empty string that parses sets it; a \<open>QuotaFailure\<close> detail is
  only logged.
\<close>

fun scan_details :: "(string \<Rightarrow> int option) \<Rightarrow> detail list \<Rightarrow> int \<Rightarrow> int" where
  "scan_details parse [] apiWaitTime = apiWaitTime"
| "scan_details parse (detail # rest) apiWaitTime =
     (let detailType = fst (string_field detail ''@type'') in
      if detailType = typeURLRetryInfo then
        (case string_field detail ''retryDelay'' of
           (retryDelayStr, ok) \<Rightarrow>
             if ok \<and> retryDelayStr \<noteq> [] then
               (case parse retryDelayStr of
                  Some parsed \<Rightarrow> scan_details parse rest parsed
                | None \<Rightarrow> scan_details parse rest apiWaitTime)
             else scan_details parse rest apiWaitTime)
      else scan_details parse rest apiWaitTime)"

text \<open>
  The closure \<open>operationWithLogging\<close>. \<open>operation k\<close> is what the \<open>k\<close>-th call of the
  wrapped operation returns (\<open>None\<close> for \<open>nil\<close>). On a rate-limit error with a positive
  \<open>apiWaitTime\<close> the closure calls \<open>backoffConfig.Reset()\<close> and then assigns
  \<open>InitialInterval\<close> and \<open>MaxInterval\<close>, in this order.
\<close>

definition operationWithLogging ::
  "runtime \<Rightarrow> (nat \<Rightarrow> go_error option) \<Rightarrow> retry_state \<Rightarrow> op_outcome \<times> retry_state" where
  "operationWithLogging rt operation st =
     (let st1 = st\<lparr>attempt := Suc (attempt st),
                    elapsed := elapsed st + op_duration rt (Suc (attempt st))\<rparr> in
      case operation (attempt st1) of
        None \<Rightarrow> (OpSuccess, st1)
      | Some err \<Rightarrow>
          (let st2 = st1\<lparr>lastErr := Some err\<rparr> in
           case err of
             APIError code message status details \<Rightarrow>
               if code = StatusTooManyRequests \<or> status = ''RESOURCE_EXHAUSTED'' then
                 (let apiWaitTime = scan_details (ParseDuration rt) details 0 in
                  if apiWaitTime > 0 then
                    (OpRetryable err,
                     st2\<lparr>backoffConfig :=
                            (Reset (backoffConfig st2))
                              \<lparr>InitialInterval := apiWaitTime, MaxInterval := apiWaitTime\<rparr>\<rparr>)
                  else (OpRetryable err, st2))
               else (OpPermanent err, st2)
           | _ \<Rightarrow> (OpPermanent err, st2)))"

text \<open>
  The library's \<open>Retry\<close> loop, with the closure and the backoff of the plugin. One round:
  call the operation; return on success; return when \<open>MaxTries\<close> is set and reached;
  return on a permanent error; return when the context is done; ask the backoff for the
  next wait; return when \<open>MaxElapsedTime\<close> is set and the time elapsed plus the wait
  exceeds it; sleep, returning early when the context is cancelled first. (For a
  permanent error the check of \<open>MaxTries\<close> comes first as well; either way the error is
  returned.) The loop has no other exit, so the model gives it fuel: \<open>None\<close> when the
  fuel runs out.
\<close>

fun Retry ::
  "nat \<Rightarrow> runtime \<Rightarrow> int option \<Rightarrow> (nat \<Rightarrow> go_error option) \<Rightarrow> nat \<Rightarrow> int \<Rightarrow> nat \<Rightarrow>
   retry_state \<Rightarrow> (go_error option \<times> retry_state) option" where
  "Retry 0 rt ctx operation MaxTries MaxElapsedTime numTries st = None"
| "Retry (Suc fuel) rt ctx operation MaxTries MaxElapsedTime numTries st =
     (case operationWithLogging rt operation st of
        (OpSuccess, st1) \<Rightarrow> Some (None, st1)
      | (OpPermanent err, st1) \<Rightarrow> Some (Some err, st1)
      | (OpRetryable err, st1) \<Rightarrow>
          if MaxTries > 0 \<and> numTries \<ge> MaxTries then Some (Some err, st1)
          else if ctx_done ctx (elapsed st1) then Some (Some ErrContext, st1)
          else
            (case NextBackOff (jitter rt (draws st1)) (backoffConfig st1) of
               (next, b) \<Rightarrow>
                 (let st2 = st1\<lparr>backoffConfig := b, draws := Suc (draws st1)\<rparr> in
                  if MaxElapsedTime > 0 \<and> elapsed st2 + next > MaxElapsedTime
                  then Some (Some err, st2)
                  else
                    (case ctx of
                       Some c \<Rightarrow>
                         if c < elapsed st2 + next
                         then Some (Some ErrContext, st2\<lparr>elapsed := c\<rparr>)
                         else Retry fuel rt ctx operation MaxTries MaxElapsedTime (Suc numTries)
                                (st2\<lparr>elapsed := elapsed st2 + next,
                                     waits := waits st2 @ [next]\<rparr>)
                     | None \<Rightarrow>
                         Retry fuel rt ctx operation MaxTries MaxElapsedTime (Suc numTries)
                           (st2\<lparr>elapsed := elapsed st2 + next,
                                waits := waits st2 @ [next]\<rparr>)))))"

text \<open>
  \<open>retryWithBackoff(ctx, operation, maxRetries)\<close>: a new backoff with
  \<open>InitialInterval = 1s\<close> and \<open>MaxInterval = 60s\<close>, reset; then
  \<open>backoff.Retry(ctx, operationWithLogging, backoff.WithBackOff(backoffConfig))\<close>, which
  resets the backoff once more and runs the loop with the library's defaults for the
  options the call does not pass: no limit on the tries (\<open>MaxTries = 0\<close>) and
  \<open>MaxElapsedTime = 15 min\<close>. The body never reads \<open>maxRetries\<close>. Any error of \<open>Retry\<close>
  becomes the error built from \<open>attempt\<close> and \<open>lastErr\<close>. The final state is returned
  with the error, for the theorems to speak about the attempts made and the waits slept.
\<close>

definition retryWithBackoff ::
  "nat \<Rightarrow> runtime \<Rightarrow> int option \<Rightarrow> (nat \<Rightarrow> go_error option) \<Rightarrow> int \<Rightarrow>
   (go_error option \<times> retry_state) option" where
  "retryWithBackoff fuel rt ctx operation maxRetries =
     (let backoffConfig0 = Reset \<lparr>InitialInterval = 1 * second, MaxInterval = 60 * second,
                                   currentInterval = 0\<rparr>;
          st0 = \<lparr>attempt = 0, lastErr = None, backoffConfig = Reset backoffConfig0,
                 elapsed = 0, draws = 0, waits = []\<rparr>
      in case Retry fuel rt ctx operation 0 DefaultMaxElapsedTime 1 st0 of
           None \<Rightarrow> None
         | Some (None, st) \<Rightarrow> Some (None, st)
         | Some (Some err, st) \<Rightarrow> Some (Some (ErrMaxRetries (attempt st) (lastErr st)), st))"

subsection \<open>Words of the specification about the retry\<close>

text \<open>
  A rate-limit signal is an API error with HTTP code 429 or status
  \<open>RESOURCE_EXHAUSTED\<close>. The retry hint of an attempt's error is the duration its
  details carry (0 when there is none, or the error is no rate-limit signal). The hint
  in force after \<open>n\<close> attempts is the last positive hint among them.
\<close>

fun rate_limited :: "go_error \<Rightarrow> bool" where
  "rate_limited (APIError code message status details) =
     (code = 429 \<or> status = ''RESOURCE_EXHAUSTED'')"
| "rate_limited other = False"

fun retry_hint :: "(string \<Rightarrow> int option) \<Rightarrow> go_error option \<Rightarrow> int" where
  "retry_hint parse (Some (APIError code message status details)) =
     (if code = 429 \<or> status = ''RESOURCE_EXHAUSTED'' then scan_details parse details 0 else 0)"
| "retry_hint parse other = 0"

fun hint_in_force :: "(string \<Rightarrow> int option) \<Rightarrow> (nat \<Rightarrow> go_error option) \<Rightarrow> nat \<Rightarrow> int option" where
  "hint_in_force parse operation 0 = None"
| "hint_in_force parse operation (Suc n) =
     (if retry_hint parse (operation (Suc n)) > 0
      then Some (retry_hint parse (operation (Suc n)))
      else hint_in_force parse operation n)"

definition pins_hold :: "runtime \<Rightarrow> (nat \<Rightarrow> go_error option) \<Rightarrow> retry_state \<Rightarrow> bool" where
  "pins_hold rt operation st =
     (InitialInterval (backoffConfig st) =
        (case hint_in_force (ParseDuration rt) operation (attempt st) of
           None \<Rightarrow> 1 * second | Some d \<Rightarrow> d) \<and>
      MaxInterval (backoffConfig st) =
        (case hint_in_force (ParseDuration rt) operation (attempt st) of
           None \<Rightarrow> 60 * second | Some d \<Rightarrow> d))"

section \<open>Formatting: \<open>fmt.Sprintf\<close> with \<open>%d\<close> and with \<open>%.2f\<close> of a \<open>float64\<close>\<close>

text \<open>
  The decimal digits of a non-negative integer, and \<open>fmt.Sprintf("%d", i)\<close>.
\<close>

definition digit_char :: "int \<Rightarrow> char" where
  "digit_char d = char_of (48 + d)"

function decimal :: "int \<Rightarrow> string" where
  "decimal n = (if n < 10 then [digit_char n] else decimal (n div 10) @ [digit_char (n mod 10)])"
  by pat_completeness auto
termination
  by (relation "measure nat") auto

declare decimal.simps [simp del]

definition Sprintf_d :: "int \<Rightarrow> string" where
  "Sprintf_d i = (if i < 0 then CHR ''-'' # decimal (- i) else decimal i)"

text \<open>
  \<open>Run\<close> formats \<open>float64(result.Confidence)/100.0\<close> with \<open>%.2f\<close>. The model computes
  with the exact values of IEEE 754 binary64 numbers: a finite \<open>float64\<close> is a pair
  \<open>(m, e)\<close> that stands for \<open>m * 2 ^ e\<close>, with \<open>\<bar>m\<bar> \<le> 2 ^ 53\<close>. Conversion and division
  round the exact result to the nearest such number, ties to even
  (\<open>round_float64 n d\<close> rounds the rational \<open>n / d\<close> to 53 significant bits), and \<open>%.2f\<close>
  rounds the exact binary value to the nearest hundredth, ties to even, as
  \<open>strconv.FormatFloat\<close> does. Exponents stay far inside the range of binary64 for
  every 64-bit integer, so neither overflow nor subnormal numbers arise.
\<close>

definition round_half_even :: "int \<Rightarrow> int \<Rightarrow> int" where
  "round_half_even n d =
     (let q = n div d; r = n mod d in
      if 2 * r < d then q
      else if 2 * r > d then q + 1
      else if even q then q else q + 1)"

function bit_length :: "int \<Rightarrow> nat" where
  "bit_length n = (if n \<le> 0 then 0 else Suc (bit_length (n div 2)))"
  by pat_completeness auto
termination
  by (relation "measure nat") auto

declare bit_length.simps [simp del]

text \<open>For positive \<open>a\<close> and \<open>d\<close>: the integer \<open>k\<close> with \<open>2 ^ k \<le> a / d < 2 ^ (k + 1)\<close>.\<close>

definition floor_log2_ratio :: "int \<Rightarrow> int \<Rightarrow> int" where
  "floor_log2_ratio a d =
     (if a \<ge> d then int (bit_length (a div d)) - 1
      else - int (bit_length ((d - 1) div a)))"

definition round_float64 :: "int \<Rightarrow> int \<Rightarrow> int \<times> int" where
  "round_float64 n d =
     (if n = 0 then (0, 0)
      else
        (let a = \<bar>n\<bar>;
             shift = 52 - floor_log2_ratio a d;
             m = (if shift \<ge> 0 then round_half_even (a * 2 ^ nat shift) d
                  else round_half_even a (d * 2 ^ nat (- shift)))
         in (sgn n * m, - shift)))"

text \<open>\<open>float64(i)\<close> of an integer, and \<open>x / k\<close> for a \<open>float64\<close> \<open>x\<close> and the constant \<open>k\<close>
  (here \<open>100.0\<close>, which binary64 represents exactly).\<close>

definition float64_of_int :: "int \<Rightarrow> int \<times> int" where
  "float64_of_int i = round_float64 i 1"

definition float64_div :: "int \<times> int \<Rightarrow> int \<Rightarrow> int \<times> int" where
  "float64_div x k =
     (case x of (m, e) \<Rightarrow>
        if e \<ge> 0 then round_float64 (m * 2 ^ nat e) k
        else round_float64 m (k * 2 ^ nat (- e)))"

definition Sprintf_2f :: "int \<times> int \<Rightarrow> string" where
  "Sprintf_2f x =
     (case x of (m, e) \<Rightarrow>
        (let hundredths = (if e \<ge> 0 then \<bar>m\<bar> * 2 ^ nat e * 100
                           else round_half_even (\<bar>m\<bar> * 100) (2 ^ nat (- e)))
         in (if m < 0 then ''-'' else []) @ decimal (hundredths div 100) @ ''.'' @
            [digit_char (hundredths div 10 mod 10), digit_char (hundredths mod 10)]))"

text \<open>
  The specification's words for the caller-visible score: a confidence \<open>c\<close> divided by
  100, written with two decimal places.
\<close>

definition two_decimals :: "int \<Rightarrow> string" where
  "two_decimals c = decimal (c div 100) @ ''.'' @
     [digit_char (c div 10 mod 10), digit_char (c mod 10)]"

section \<open>The environment and the external calls\<close>

text \<open>\<open>AIAnalysisResult\<close> and \<open>AIAnalysisParams\<close> (internal/plugin/utils.go).\<close>

record AIAnalysisResult =
  Text :: string
  Promote :: bool
  Confidence :: int

definition zero_AIAnalysisResult :: AIAnalysisResult where
  "zero_AIAnalysisResult = \<lparr>Text = [], Promote = False, Confidence = 0\<rparr>"

record AIAnalysisParams =
  ModelName :: string
  LogsContext :: string
  ExtraPrompt :: string

text \<open>The plugin configuration \<open>aiConfig\<close> of a metric.\<close>

record aiConfig =
  Model :: string
  StableLabel :: string
  CanaryLabel :: string
  BaseBranch :: string
  GitHubURL :: string
  AnalysisMode :: string
  Namespace :: string
  PodName :: string
  cfg_ExtraPrompt :: string

definition zero_aiConfig :: aiConfig where
  "zero_aiConfig = \<lparr>Model = [], StableLabel = [], CanaryLabel = [], BaseBranch = [],
     GitHubURL = [], AnalysisMode = [], Namespace = [], PodName = [], cfg_ExtraPrompt = []\<rparr>"

text \<open>
  \<open>A2ARequest\<close> and \<open>A2AResponse\<close> of the agent client. The fields of the response carry
  the prefix \<open>resp_\<close> where the name is a field of \<open>AIAnalysisResult\<close> already.
\<close>

record A2ARequest =
  UserID :: string
  Prompt :: string
  Context :: "(string \<times> string) list"

record A2AResponse =
  Analysis :: string
  RootCause :: string
  Remediation :: string
  PRLink :: string
  resp_Promote :: bool
  resp_Confidence :: int

text \<open>
  A response of the model API: the candidates, each with the text parts of its content;
  \<open>Content\<close> is a pointer and may be nil.
\<close>

datatype Candidate = Candidate "string list option"

type_synonym GenerateContentResponse = "Candidate list"

text \<open>The values of the JSON object the agent path marshals.\<close>

datatype json_value = JString string | JBool bool | JInt int

text \<open>
  The environment: what every call to the outside answers.
  \<^item> \<open>w_pluginConfig\<close>: the entry \<open>argoproj-labs/metric-ai\<close> of the metric's plugin map,
    decoded by \<open>json.Unmarshal\<close>: absent, a decoding error, or the configuration.
  \<^item> \<open>w_runNamespace\<close>: \<open>analysisRun.Namespace\<close>.
  \<^item> \<open>w_acquireKubeClient\<close>, \<open>w_getKubeClient\<close>: the error of creating a Kubernetes
    client, if any. \<open>w_readFirstPodLogs namespace selector\<close>: the logs of the first pod
    or an error. \<open>w_listPods namespace labelSelector\<close>: the names of the pods listed.
  \<^item> \<open>w_getSecretValue namespace key\<close>: the secret read from the cluster.
    \<open>w_NewClient apiKey\<close>: the error of \<open>genai.NewClient\<close>, if any.
    \<open>w_GenerateContent model text k\<close>: what the \<open>k\<close>-th call of
    \<open>client.Models.GenerateContent\<close> returns, an error or a response (a pointer).
  \<^item> \<open>w_runtime\<close>: durations, random draws and \<open>time.ParseDuration\<close> for the retry.
  \<^item> \<open>w_Unmarshal text obj\<close>: \<open>json.Unmarshal([]byte(text), &obj)\<close> on a record
    that holds \<open>obj\<close>: the error, if any, and the record afterwards.
    \<open>w_TrimSpace\<close>: \<open>strings.TrimSpace\<close>. \<open>w_Marshal\<close>: \<open>json.Marshal\<close> of a map.
  \<^item> \<open>w_Getenv\<close>: \<open>os.Getenv\<close>. \<open>w_httpGet url\<close>: a transport error or the status code
    of the response. \<open>w_httpPost url request\<close>: a transport error, or the status code
    with the result of decoding the body as an \<open>A2AResponse\<close>.
  \<^item> \<open>w_createCanaryFailureIssue\<close>: the error of the remediation collaborator, if any
    (its code is not among the sources).
\<close>

record world =
  w_pluginConfig :: "(go_error + aiConfig) option"
  w_runNamespace :: string
  w_acquireKubeClient :: "go_error option"
  w_readFirstPodLogs :: "string \<Rightarrow> string \<Rightarrow> go_error + string"
  w_getKubeClient :: "go_error option"
  w_listPods :: "string \<Rightarrow> string \<Rightarrow> go_error + string list"
  w_getSecretValue :: "string \<Rightarrow> string \<Rightarrow> go_error + string"
  w_NewClient :: "string \<Rightarrow> go_error option"
  w_GenerateContent :: "string \<Rightarrow> string \<Rightarrow> nat \<Rightarrow> go_error + GenerateContentResponse option"
  w_runtime :: runtime
  w_Unmarshal :: "string \<Rightarrow> AIAnalysisResult \<Rightarrow> go_error option \<times> AIAnalysisResult"
  w_TrimSpace :: "string \<Rightarrow> string"
  w_Marshal :: "(string \<times> json_value) list \<Rightarrow> go_error + string"
  w_Getenv :: "string \<Rightarrow> string"
  w_httpGet :: "string \<Rightarrow> go_error + int"
  w_httpPost :: "string \<Rightarrow> A2ARequest \<Rightarrow> go_error + (int \<times> (go_error + A2AResponse))"
  w_createCanaryFailureIssue ::
    "string \<Rightarrow> string \<Rightarrow> string \<Rightarrow> string \<Rightarrow> string \<Rightarrow> go_error option"

text \<open>The calls to the outside, as a function that makes them reports them.\<close>

datatype call =
    CallAcquireKubeClient
  | CallReadFirstPodLogs string string
  | CallGetKubeClient
  | CallListPods string string
  | CallGetSecretValue string string
  | CallGenerateContent string nat
  | CallHttpGet string
  | CallHttpPost string
  | CallCreateCanaryFailureIssue

section \<open>Direct model analyzer: \<open>analyzeLogsWithAI\<close> (internal/plugin/utils.go)\<close>

text \<open>
  \<open>concatCandidates\<close>: the text parts of all candidates, in order (an empty part adds
  nothing). A nil response gives the empty text; \<open>cand.Content.Parts\<close> on a candidate
  whose content is nil is a nil pointer dereference.
\<close>

fun concat_loop :: "Candidate list \<Rightarrow> string \<Rightarrow> panic + string" where
  "concat_loop [] b = Inr b"
| "concat_loop (Candidate None # rest) b = Inl NilPointerDereference"
| "concat_loop (Candidate (Some parts) # rest) b = concat_loop rest (b @ concat parts)"

definition concatCandidates :: "GenerateContentResponse option \<Rightarrow> panic + string" where
  "concatCandidates resp = (case resp of None \<Rightarrow> Inr [] | Some cands \<Rightarrow> concat_loop cands [])"

definition system_prompt :: string where
  "system_prompt =
     ''Analyze what was this canary behavior based on these logs, compare the stable version vs the canary version. '' @
     ''Write only a json text with these entries and nothing else: '' @
     ''one named 'text' with your analysis text; '' @
     ''one named 'promote' with true or false; '' @
     ''one named 'confidence' with a number from 0 to 100 representing your confidence in the decision. '' @
     ''The stable version logs start with '--- STABLE LOGS ---' and the canary version logs start with '--- CANARY LOGS ---'.'' @
     ''In case that you cannot make a determination due to lack of information, default to promote: true.''"

text \<open>
  The end of \<open>analyzeLogsWithAI\<close>, from the text of the response on: trim it, try to
  decode it into the zero-valued record \<open>obj\<close>; on an error extract the first JSON block
  and, when there is one, assign it to \<open>rawJSON\<close> and decode it into the same record,
  dropping the error. \<open>rawJSON\<close> as last assigned and \<open>obj\<close> are returned.
\<close>

definition parse_analysis :: "world \<Rightarrow> string \<Rightarrow> string \<times> AIAnalysisResult" where
  "parse_analysis w txt =
     (let rawJSON = w_TrimSpace w txt in
      case w_Unmarshal w rawJSON zero_AIAnalysisResult of
        (None, obj) \<Rightarrow> (rawJSON, obj)
      | (Some e, obj) \<Rightarrow>
          (let j = extractFirstJSON rawJSON in
           if j \<noteq> [] then (j, snd (w_Unmarshal w j obj)) else (rawJSON, obj)))"

text \<open>
  The text sent to the model: the instructions, the extra prompt when there is one, and
  the logs. The operation given to \<open>retryWithBackoff\<close> is one call of
  \<open>GenerateContent\<close> with this text; it returns the error of the call.
\<close>

definition request_text :: "AIAnalysisParams \<Rightarrow> string" where
  "request_text params =
     (let system = system_prompt @
            (if ExtraPrompt params \<noteq> []
             then [CHR 0x0A, CHR 0x0A] @ ''Additional context: '' @ ExtraPrompt params
             else [])
      in system @ [CHR 0x0A, CHR 0x0A] @ LogsContext params)"

definition generate_operation :: "world \<Rightarrow> AIAnalysisParams \<Rightarrow> nat \<Rightarrow> go_error option" where
  "generate_operation w params k =
     (case w_GenerateContent w (ModelName params) (request_text params) k of
        Inl apiErr \<Rightarrow> Some apiErr
      | Inr resp \<Rightarrow> None)"

text \<open>
  \<open>analyzeLogsWithAI\<close>: the secret, the client, the call of the model under
  \<open>retryWithBackoff\<close> with \<open>context.Background()\<close> and \<open>maxRetries = 3\<close>; after a retry
  that ends well, \<open>resp\<close> is the response of the last call.
\<close>

definition analyzeLogsWithAI ::
  "nat \<Rightarrow> world \<Rightarrow> AIAnalysisParams \<Rightarrow>
   (string \<times> AIAnalysisResult \<times> go_error option) outcome \<times> call list" where
  "analyzeLogsWithAI fuel w params =
     (let secret_call = [CallGetSecretValue ''argo-rollouts'' ''google_api_key'']
      in case w_getSecretValue w ''argo-rollouts'' ''google_api_key'' of
           Inl err \<Rightarrow>
             (Return ([], zero_AIAnalysisResult,
                      Some (Errorf_v ''failed to get Google API key from secret'' err)),
              secret_call)
         | Inr apiKey \<Rightarrow>
        (case w_NewClient w apiKey of
           Some err \<Rightarrow> (Return ([], zero_AIAnalysisResult, Some err), secret_call)
         | None \<Rightarrow>
        (case retryWithBackoff fuel (w_runtime w) None (generate_operation w params) 3 of
           None \<Rightarrow> (OutOfFuel, secret_call)
         | Some (Some err, st) \<Rightarrow>
             (Return ([], zero_AIAnalysisResult, Some err),
              secret_call @ map (CallGenerateContent (ModelName params)) [1..<Suc (attempt st)])
         | Some (None, st) \<Rightarrow>
             (let calls = secret_call @
                    map (CallGenerateContent (ModelName params)) [1..<Suc (attempt st)];
                  resp = (case w_GenerateContent w (ModelName params) (request_text params)
                                 (attempt st) of
                            Inl apiErr \<Rightarrow> None
                          | Inr r \<Rightarrow> r)
              in case concatCandidates resp of
                   Inl p \<Rightarrow> (Panic p, calls)
                 | Inr txt \<Rightarrow>
                     (case parse_analysis w txt of
                        (rawJSON, obj) \<Rightarrow> (Return (rawJSON, obj, None), calls))))))"

section \<open>Delegation client and mode dispatch (A2A client, internal/plugin/ai_mode.go)\<close>

definition HealthCheck :: "world \<Rightarrow> string \<Rightarrow> go_error option" where
  "HealthCheck w baseURL =
     (case w_httpGet w (baseURL @ ''/'') of
        Inl err \<Rightarrow> Some (Errorf_v ''health check failed'' err)
      | Inr statusCode \<Rightarrow> None)"

text \<open>
  \<open>AnalyzeWithAgent\<close>. The request \<open>req\<close> it builds is \<open>analyze_request\<close>; marshalling a
  request whose values are strings does not fail, so that branch is left out.
\<close>

definition analyze_request :: "string \<Rightarrow> string \<Rightarrow> string \<Rightarrow> string \<Rightarrow> A2ARequest" where
  "analyze_request namespace podName stableLogs canaryLogs =
     \<lparr>UserID = ''argo-rollouts'',
      Prompt = ''Analyze canary deployment issue. Namespace: '' @ namespace @
        '', Pod: '' @ podName @
        ''. Compare stable vs canary behavior and determine if canary should be promoted.'',
      Context = [(''namespace'', namespace), (''podName'', podName),
                 (''stableLogs'', stableLogs), (''canaryLogs'', canaryLogs)]\<rparr>"

definition AnalyzeWithAgent ::
  "world \<Rightarrow> string \<Rightarrow> string \<Rightarrow> string \<Rightarrow> string \<Rightarrow> string \<Rightarrow> go_error + A2AResponse" where
  "AnalyzeWithAgent w baseURL namespace podName stableLogs canaryLogs =
     (let req = analyze_request namespace podName stableLogs canaryLogs
      in case w_httpPost w (baseURL @ ''/a2a/analyze'') req of
           Inl err \<Rightarrow> Inl (Errorf_v ''failed to send request'' err)
         | Inr (statusCode, body) \<Rightarrow>
             if statusCode \<noteq> 200
             then Inl (ErrorString (''agent returned status '' @ Sprintf_d statusCode))
             else (case body of
                     Inl err \<Rightarrow> Inl (Errorf_v ''failed to decode response'' err)
                   | Inr result \<Rightarrow> Inr result))"

text \<open>
  \<open>analyzeWithKubernetesAgent\<close>. The address \<open>agentURL\<close> of the agent is the environment
  variable \<open>K8S_AGENT_URL\<close>, or the address of the service in the cluster when the
  variable is empty.
\<close>

definition agentURL :: "world \<Rightarrow> string" where
  "agentURL w =
     (if w_Getenv w ''K8S_AGENT_URL'' = []
      then ''http://kubernetes-agent.argo-rollouts.svc.cluster.local:8080''
      else w_Getenv w ''K8S_AGENT_URL'')"

definition analyzeWithKubernetesAgent ::
  "world \<Rightarrow> string \<Rightarrow> string \<Rightarrow> string \<Rightarrow>
   (string \<times> AIAnalysisResult \<times> go_error option) outcome \<times> call list" where
  "analyzeWithKubernetesAgent w namespace podName logsContext =
     (let health_call = [CallHttpGet (agentURL w @ ''/'')];
          calls = health_call @ [CallHttpPost (agentURL w @ ''/a2a/analyze'')]
      in case HealthCheck w (agentURL w) of
           Some err \<Rightarrow> (Return ([], zero_AIAnalysisResult, Some err), health_call)
         | None \<Rightarrow>
        (case splitLogs logsContext of
           Inl p \<Rightarrow> (Panic p, health_call)
         | Inr (stableLogs, canaryLogs) \<Rightarrow>
        (case AnalyzeWithAgent w (agentURL w) namespace podName stableLogs canaryLogs of
           Inl err \<Rightarrow> (Return ([], zero_AIAnalysisResult, Some err), calls)
         | Inr resp \<Rightarrow>
             (let result = \<lparr>Text = Analysis resp, Promote = resp_Promote resp,
                            Confidence = resp_Confidence resp\<rparr>;
                  jsonResp = [(''text'', JString (Analysis resp)),
                              (''promote'', JBool (resp_Promote resp)),
                              (''confidence'', JInt (resp_Confidence resp)),
                              (''rootCause'', JString (RootCause resp)),
                              (''remediation'', JString (Remediation resp))] @
                             (if PRLink resp \<noteq> [] then [(''prLink'', JString (PRLink resp))]
                              else [])
              in case w_Marshal w jsonResp of
                   Inl err \<Rightarrow> (Return ([], zero_AIAnalysisResult, Some err), calls)
                 | Inr rawJSON \<Rightarrow> (Return (rawJSON, result, None), calls)))))"

definition AnalysisModeDefault :: string where
  "AnalysisModeDefault = ''default''"

definition AnalysisModeAgent :: string where
  "AnalysisModeAgent = ''agent''"

definition analyzeWithMode ::
  "nat \<Rightarrow> world \<Rightarrow> string \<Rightarrow> string \<Rightarrow> string \<Rightarrow> string \<Rightarrow> string \<Rightarrow> string \<Rightarrow>
   (string \<times> AIAnalysisResult \<times> go_error option) outcome \<times> call list" where
  "analyzeWithMode fuel w mode modelName logsContext namespace podName extraPrompt =
     (if mode = AnalysisModeAgent
      then analyzeWithKubernetesAgent w namespace podName logsContext
      else analyzeLogsWithAI fuel w
             \<lparr>ModelName = modelName, LogsContext = logsContext, ExtraPrompt = extraPrompt\<rparr>)"

section \<open>The engine: \<open>Run\<close> of the metric provider\<close>

datatype AnalysisPhase =
  PhaseUnset | AnalysisPhaseSuccessful | AnalysisPhaseFailed | AnalysisPhaseError

text \<open>
  The measurement \<open>Run\<close> returns. \<open>Message\<close> holds the error whose \<open>Error()\<close> text the
  plugin stores; the time stamps \<open>StartedAt\<close> and \<open>FinishedAt\<close> are left out.
\<close>

record Measurement =
  Phase :: AnalysisPhase
  Message :: "go_error option"
  Value :: string
  Metadata :: "string \<rightharpoonup> string"

definition markMeasurementError :: "Measurement \<Rightarrow> go_error \<Rightarrow> Measurement" where
  "markMeasurementError m err = m\<lparr>Phase := AnalysisPhaseError, Message := Some err\<rparr>"

definition newMeasurement :: Measurement where
  "newMeasurement = \<lparr>Phase = PhaseUnset, Message = None, Value = [], Metadata = Map.empty\<rparr>"

text \<open>
  The pod template hash step of \<open>Run\<close>: in agent mode, a \<open>podName\<close> without a dash is
  taken for a template hash and replaced by the name of the first pod that carries it.
\<close>

definition resolve_podName ::
  "world \<Rightarrow> string \<Rightarrow> string \<Rightarrow> string \<Rightarrow> (go_error + string) \<times> call list" where
  "resolve_podName w analysisMode namespace podName =
     (if analysisMode = AnalysisModeAgent \<and> CHR ''-'' \<notin> set podName then
        (case w_getKubeClient w of
           Some err \<Rightarrow> (Inl (Errorf_w ''failed to create k8s client'' err), [CallGetKubeClient])
         | None \<Rightarrow>
             (let selector = ''rollouts-pod-template-hash='' @ podName;
                  calls = [CallGetKubeClient, CallListPods namespace selector]
              in case w_listPods w namespace selector of
                   Inl err \<Rightarrow>
                     (Inl (Errorf_w (''failed to find pod with template hash '' @ podName) err),
                      calls)
                 | Inr [] \<Rightarrow>
                     (Inl (ErrorString (''no pods found with template hash '' @ podName)), calls)
                 | Inr (first # others) \<Rightarrow> (Inr first, calls)))
      else (Inr podName, []))"

text \<open>
  What \<open>Run\<close> holds when the analysis has returned without error: the configuration,
  the model name, the combined logs, and the raw text and the record of the analysis.
\<close>

record analysed =
  an_cfg :: aiConfig
  an_modelName :: string
  an_logsContext :: string
  an_analysisJSON :: string
  an_result :: AIAnalysisResult

text \<open>
  The first part of \<open>Run\<close>, up to and including the check of the error of
  \<open>analyzeWithMode\<close>: either \<open>Run\<close> returns early (\<open>Inl\<close>, with what the call comes to),
  or it goes on with the analysis in hand (\<open>Inr\<close>).
\<close>

text \<open>The defaults \<open>Run\<close> sets for the label selectors and the model name.\<close>

definition stableSelector_of :: "aiConfig \<Rightarrow> string" where
  "stableSelector_of cfg = (if StableLabel cfg = [] then ''role=stable'' else StableLabel cfg)"

definition canarySelector_of :: "aiConfig \<Rightarrow> string" where
  "canarySelector_of cfg = (if CanaryLabel cfg = [] then ''role=canary'' else CanaryLabel cfg)"

definition modelName_of :: "aiConfig \<Rightarrow> string" where
  "modelName_of cfg = (if Model cfg = [] then ''gemini-2.0-flash'' else Model cfg)"

definition Run_analyse ::
  "nat \<Rightarrow> world \<Rightarrow> (Measurement outcome + analysed) \<times> call list" where
  "Run_analyse fuel w =
     (case (case w_pluginConfig w of None \<Rightarrow> Inr zero_aiConfig | Some decoded \<Rightarrow> decoded) of
        Inl err \<Rightarrow> (Inl (Return (markMeasurementError newMeasurement err)), [])
      | Inr cfg \<Rightarrow>
     (let stableSelector = stableSelector_of cfg;
          canarySelector = canarySelector_of cfg;
          modelName = modelName_of cfg;
          ns = w_runNamespace w;
          calls1 = [CallAcquireKubeClient];
          calls2 = calls1 @ [CallReadFirstPodLogs ns stableSelector];
          calls3 = calls2 @ [CallReadFirstPodLogs ns canarySelector]
      in case w_acquireKubeClient w of
           Some err \<Rightarrow> (Inl (Return (markMeasurementError newMeasurement err)), calls1)
         | None \<Rightarrow>
        (case w_readFirstPodLogs w ns stableSelector of
           Inl err \<Rightarrow> (Inl (Return (markMeasurementError newMeasurement err)), calls2)
         | Inr stableLogs \<Rightarrow>
        (case w_readFirstPodLogs w ns canarySelector of
           Inl err \<Rightarrow>
             if IsNotFound err
             then (Inl (Return (newMeasurement\<lparr>Value := ''1'',
                                  Phase := AnalysisPhaseSuccessful\<rparr>)), calls3)
             else (Inl (Return (markMeasurementError newMeasurement err)), calls3)
         | Inr canaryLogs \<Rightarrow>
             (let logsContext = ''--- STABLE LOGS ---'' @ [CHR 0x0A] @ stableLogs @
                    [CHR 0x0A, CHR 0x0A] @ ''--- CANARY LOGS ---'' @ [CHR 0x0A] @ canaryLogs;
                  analysisMode = (if AnalysisMode cfg = [] then AnalysisModeDefault
                                  else AnalysisMode cfg);
                  namespace = Namespace cfg;
                  podName = PodName cfg
              in if analysisMode = AnalysisModeAgent \<and> (namespace = [] \<or> podName = [])
                 then (Inl (Return (markMeasurementError newMeasurement
                         (ErrorString ''agent mode requires namespace and podName to be configured''))),
                       calls3)
                 else
                   (case resolve_podName w analysisMode namespace podName of
                      (Inl err, calls4) \<Rightarrow>
                        (Inl (Return (markMeasurementError newMeasurement err)), calls3 @ calls4)
                    | (Inr podName', calls4) \<Rightarrow>
                        (case analyzeWithMode fuel w analysisMode modelName logsContext namespace
                                podName' (cfg_ExtraPrompt cfg) of
                           (OutOfFuel, calls5) \<Rightarrow> (Inl OutOfFuel, calls3 @ calls4 @ calls5)
                         | (Panic p, calls5) \<Rightarrow> (Inl (Panic p), calls3 @ calls4 @ calls5)
                         | (Return (analysisJSON, result, Some aiErr), calls5) \<Rightarrow>
                             (Inl (Return (markMeasurementError newMeasurement aiErr)),
                              calls3 @ calls4 @ calls5)
                         | (Return (analysisJSON, result, None), calls5) \<Rightarrow>
                             (Inr \<lparr>an_cfg = cfg, an_modelName = modelName,
                                   an_logsContext = logsContext,
                                   an_analysisJSON = analysisJSON, an_result = result\<rparr>,
                              calls3 @ calls4 @ calls5))))))))"

text \<open>
  The rest of \<open>Run\<close>: the metadata, then the value and the phase from the record. On a
  negative verdict the remediation collaborator is called; its error is only logged.
\<close>

definition Run_resolve :: "world \<Rightarrow> analysed \<Rightarrow> Measurement \<times> call list" where
  "Run_resolve w a =
     (let result = an_result a;
          m = newMeasurement\<lparr>Metadata :=
                [''analysis'' \<mapsto> Text result,
                 ''analysisJSON'' \<mapsto> an_analysisJSON a,
                 ''confidence'' \<mapsto> Sprintf_d (Confidence result)]\<rparr>
      in if Promote result
         then (m\<lparr>Value := Sprintf_2f (float64_div (float64_of_int (Confidence result)) 100),
                 Phase := AnalysisPhaseSuccessful\<rparr>, [])
         else
           (case w_createCanaryFailureIssue w (an_logsContext a) (Text result)
                   (BaseBranch (an_cfg a)) (GitHubURL (an_cfg a)) (an_modelName a) of
              Some issueErr \<Rightarrow>
                (m\<lparr>Value := ''0'', Phase := AnalysisPhaseFailed\<rparr>,
                 [CallCreateCanaryFailureIssue])
            | None \<Rightarrow>
                (m\<lparr>Value := ''0'', Phase := AnalysisPhaseFailed\<rparr>,
                 [CallCreateCanaryFailureIssue])))"

definition Run :: "nat \<Rightarrow> world \<Rightarrow> Measurement outcome \<times> call list" where
  "Run fuel w =
     (case Run_analyse fuel w of
        (Inl early, calls) \<Rightarrow> (early, calls)
      | (Inr a, calls) \<Rightarrow>
          (case Run_resolve w a of (m, calls') \<Rightarrow> (Return m, calls @ calls')))"

text \<open>
  The calls that read the cluster before the analysis starts, and the calls of the
  analysis itself (the model API, the secret it needs, and the agent).
\<close>

fun cluster_call :: "call \<Rightarrow> bool" where
  "cluster_call CallAcquireKubeClient = True"
| "cluster_call (CallReadFirstPodLogs ns selector) = True"
| "cluster_call other = False"

section \<open>What a caller observes of a retry, and example environments\<close>

text \<open>
  Of a call of \<open>retryWithBackoff\<close> that returns: the error returned, how often the
  operation was invoked, and the waits slept between the invocations.
\<close>

definition observed ::
  "(go_error option \<times> retry_state) option \<Rightarrow> (go_error option \<times> nat \<times> int list) option" where
  "observed r = map_option (\<lambda>(err, st). (err, attempt st, waits st)) r"

text \<open>
  A \<open>time.ParseDuration\<close> for the examples: whole seconds, as in \<open>"30s"\<close>.
\<close>

definition is_digit :: "char \<Rightarrow> bool" where
  "is_digit c = (c \<in> set ''0123456789'')"

definition digits_value :: "string \<Rightarrow> int" where
  "digits_value ds = foldl (\<lambda>acc c. 10 * acc + (of_char c - 48)) 0 ds"

definition parse_seconds :: "string \<Rightarrow> int option" where
  "parse_seconds s =
     (case rev s of
        [] \<Rightarrow> None
      | c # ds \<Rightarrow>
          if c = CHR ''s'' \<and> ds \<noteq> [] \<and> list_all is_digit ds
          then Some (digits_value (rev ds) * second)
          else None)"

text \<open>
  An example run-time: every call of the operation returns at once, and every random
  draw is the current interval itself (the middle of the range of the jitter).
\<close>

definition example_runtime :: runtime where
  "example_runtime =
     \<lparr>op_duration = (\<lambda>k. 0), jitter = (\<lambda>k current. current), ParseDuration = parse_seconds\<rparr>"

text \<open>Example errors: a rate-limit error without details, one with a retry hint, and an
  error that is no rate-limit signal.\<close>

definition rate_limit_error :: go_error where
  "rate_limit_error = APIError 429 ''Resource has been exhausted'' ''RESOURCE_EXHAUSTED'' []"

definition rate_limit_error_hint :: "string \<Rightarrow> go_error" where
  "rate_limit_error_hint retryDelay =
     APIError 429 ''Resource has been exhausted'' ''RESOURCE_EXHAUSTED''
       [[(''@type'', AnyString typeURLRetryInfo), (''retryDelay'', AnyString retryDelay)]]"

definition bad_request_error :: go_error where
  "bad_request_error = APIError 400 ''model not found'' ''INVALID_ARGUMENT'' []"

text \<open>Example operations: one that always fails with the rate-limit error, and one whose
  first call fails with a rate-limit error hinting at 30 s and whose later calls
  succeed.\<close>

definition always_rate_limited :: "nat \<Rightarrow> go_error option" where
  "always_rate_limited k = Some rate_limit_error"

definition hint_then_success :: "nat \<Rightarrow> go_error option" where
  "hint_then_success k = (if k = 1 then Some (rate_limit_error_hint ''30s'') else None)"

definition hint_then_rate_limited :: "nat \<Rightarrow> go_error option" where
  "hint_then_rate_limited k =
     (if k = 1 then Some (rate_limit_error_hint ''30s'')
      else if k \<le> 3 then Some rate_limit_error else None)"

definition always_bad_request :: "nat \<Rightarrow> go_error option" where
  "always_bad_request k = Some bad_request_error"

section \<open>Example worlds\<close>

text \<open>
  Texts a model may answer: the two of the repository's tests, one with a confidence
  out of range, and one that is no JSON but holds a block in braces.
\<close>

definition ok_json :: string where
  \<open>ok_json = ''{"text":"ok","promote":true,"confidence":100}''\<close>

definition bad_json :: string where
  \<open>bad_json = ''{"text":"canary is bad","promote":false,"confidence":90}''\<close>

definition sure_json :: string where
  \<open>sure_json = ''{"text":"sure","promote":true,"confidence":150}''\<close>

definition prose_answer :: string where
  "prose_answer = ''I cannot tell {not json} sorry''"

text \<open>
  A decoder for the examples: it knows the three JSON texts above and fails on every
  other text, leaving the record as it was (as \<open>json.Unmarshal\<close> does on text that is
  no JSON).
\<close>

definition example_Unmarshal ::
  "string \<Rightarrow> AIAnalysisResult \<Rightarrow> go_error option \<times> AIAnalysisResult" where
  "example_Unmarshal txt obj =
     (if txt = ok_json then (None, \<lparr>Text = ''ok'', Promote = True, Confidence = 100\<rparr>)
      else if txt = bad_json
      then (None, \<lparr>Text = ''canary is bad'', Promote = False, Confidence = 90\<rparr>)
      else if txt = sure_json
      then (None, \<lparr>Text = ''sure'', Promote = True, Confidence = 150\<rparr>)
      else (Some (ErrorString ''invalid character''), obj))"

text \<open>
  A JSON text whose \<open>promote\<close> is a string, not a boolean, and a decoder that treats it
  as \<open>json.Unmarshal\<close> does: the decoding goes on after the field of the wrong type, so
  \<open>text\<close> and \<open>confidence\<close> are stored, \<open>promote\<close> is left as it was, and the error of
  the type mismatch is returned. On every other text it is the decoder above.
\<close>

definition mismatch_json :: string where
  \<open>mismatch_json = ''{"text":"x","promote":"yes","confidence":80}''\<close>

definition mismatch_Unmarshal ::
  "string \<Rightarrow> AIAnalysisResult \<Rightarrow> go_error option \<times> AIAnalysisResult" where
  "mismatch_Unmarshal txt obj =
     (if txt = mismatch_json
      then (Some (ErrorString ''json: cannot unmarshal string into Go struct field AIAnalysisResult.promote of type bool''),
            obj\<lparr>Text := ''x'', Confidence := 80\<rparr>)
      else example_Unmarshal txt obj)"

text \<open>\<open>strings.TrimSpace\<close> on texts whose white space is ASCII.\<close>

definition is_space :: "char \<Rightarrow> bool" where
  "is_space c = (c \<in> set [CHR 0x09, CHR 0x0A, CHR 0x0B, CHR 0x0C, CHR 0x0D, CHR '' ''])"

definition ascii_TrimSpace :: "string \<Rightarrow> string" where
  "ascii_TrimSpace s = rev (dropWhile is_space (rev (dropWhile is_space s)))"

text \<open>
  A world in which the cluster answers (logs \<open>dummy\<close>, as in the tests), the model API
  answers every call with the given text, and the agent is reachable and answers with
  the given response. The plugin configuration is a parameter.
\<close>

definition example_world :: "aiConfig \<Rightarrow> string \<Rightarrow> A2AResponse \<Rightarrow> world" where
  "example_world cfg answer agent_answer =
     \<lparr>w_pluginConfig = Some (Inr cfg),
      w_runNamespace = ''default'',
      w_acquireKubeClient = None,
      w_readFirstPodLogs = (\<lambda>namespace selector. Inr ''dummy''),
      w_getKubeClient = None,
      w_listPods = (\<lambda>namespace selector. Inr [''canary-demo-7d4b9c-x2x7p'']),
      w_getSecretValue = (\<lambda>namespace key. Inr ''an-api-key''),
      w_NewClient = (\<lambda>apiKey. None),
      w_GenerateContent = (\<lambda>model txt k. Inr (Some [Candidate (Some [answer])])),
      w_runtime = example_runtime,
      w_Unmarshal = example_Unmarshal,
      w_TrimSpace = ascii_TrimSpace,
      w_Marshal = (\<lambda>fields. Inr ''{}''),
      w_Getenv = (\<lambda>name. []),
      w_httpGet = (\<lambda>url. Inr 404),
      w_httpPost = (\<lambda>url request. Inr (200, Inr agent_answer)),
      w_createCanaryFailureIssue = (\<lambda>logs analysis branch url model. None)\<rparr>"

definition direct_cfg :: aiConfig where
  "direct_cfg = zero_aiConfig\<lparr>Model := ''gemini-1.5-pro-latest''\<rparr>"

text \<open>A world whose model answers with the text of the wrong type, decoded as above.\<close>

definition world_type_mismatch :: world where
  "world_type_mismatch =
     (example_world direct_cfg mismatch_json
        \<lparr>Analysis = [], RootCause = [], Remediation = [], PRLink = [],
         resp_Promote = False, resp_Confidence = 0\<rparr>)
       \<lparr>w_Unmarshal := mismatch_Unmarshal\<rparr>"

text \<open>Agent mode with a namespace but no pod name, and a complete agent configuration.\<close>

definition agent_cfg_no_pod :: aiConfig where
  "agent_cfg_no_pod = zero_aiConfig\<lparr>AnalysisMode := ''agent'', Namespace := ''default''\<rparr>"

definition agent_cfg :: aiConfig where
  "agent_cfg = zero_aiConfig\<lparr>AnalysisMode := ''agent'', Namespace := ''default'',
     PodName := ''canary-demo-7d4b9c-x2x7p''\<rparr>"

definition agent_answer_150 :: A2AResponse where
  "agent_answer_150 =
     \<lparr>Analysis = ''canary looks fine'', RootCause = [], Remediation = [], PRLink = [],
      resp_Promote = True, resp_Confidence = 150\<rparr>"

text \<open>
  The cluster of a run whose canary pods are gone: the stable logs are read, the canary
  selector finds no pod. The world of such a run, in agent mode without a pod name.
\<close>

definition logs_canary_missing :: "string \<Rightarrow> string \<Rightarrow> go_error + string" where
  "logs_canary_missing namespace selector =
     (if selector = ''role=canary'' then Inl (NotFoundError ''pods'') else Inr ''dummy'')"

definition world_canary_missing :: world where
  "world_canary_missing =
     (example_world agent_cfg_no_pod ok_json agent_answer_150)
       \<lparr>w_readFirstPodLogs := logs_canary_missing\<rparr>"

text \<open>The combined logs \<open>Run\<close> builds from the logs \<open>dummy\<close> of both pods.\<close>

definition dummy_logsContext :: string where
  "dummy_logsContext = ''--- STABLE LOGS ---'' @ [CHR 0x0A] @ ''dummy'' @
     [CHR 0x0A, CHR 0x0A] @ ''--- CANARY LOGS ---'' @ [CHR 0x0A] @ ''dummy''"

definition dummy_params :: AIAnalysisParams where
  "dummy_params = \<lparr>ModelName = ''gemini-2.0-flash'', LogsContext = dummy_logsContext,
     ExtraPrompt = []\<rparr>"

section \<open>Auxiliary functions for the proofs\<close>

text \<open>
  The scan of \<open>extractFirstJSON\<close> as a recursion over the bytes still to be read: the
  prefix of the remaining text that ends at the closing brace which brings the depth to
  zero, if any.
\<close>

fun close_prefix :: "string \<Rightarrow> int \<Rightarrow> string option" where
  "close_prefix [] d = None"
| "close_prefix (c # cs) d =
     (if c = CHR ''{'' then map_option ((#) c) (close_prefix cs (d + 1))
      else if c = CHR ''}'' then
        (if d - 1 = 0 then Some [c] else map_option ((#) c) (close_prefix cs (d - 1)))
      else map_option ((#) c) (close_prefix cs d))"

chapter \<open>Properties\<close>

section \<open>Properties of the response extractor\<close>

lemma take_window_snoc:
  assumes "start \<le> i" "i < length s"
  shows "take (Suc i - start) (drop start s) = take (i - start) (drop start s) @ [s ! i]"
proof -
  from assms have "Suc i - start = Suc (i - start)" by simp
  moreover from assms have "i - start < length (drop start s)" by simp
  moreover from assms have "drop start s ! (i - start) = s ! i" by simp
  ultimately show ?thesis by (simp add: take_Suc_conv_app_nth)
qed

lemma extract_scan_close_prefix:
  "start \<le> i \<Longrightarrow> extract_scan s start i d =
     (case close_prefix (drop i s) d of None \<Rightarrow> []
      | Some p \<Rightarrow> take (i - start) (drop start s) @ p)"
proof (induction s start i d rule: extract_scan.induct)
  case (1 s start i depth)
  show ?case
  proof (cases "i < length s")
    case False
    then show ?thesis by (simp add: extract_scan.simps[of s start i depth])
  next
    case True
    then have d: "drop i s = s ! i # drop (Suc i) s"
      by (simp add: Cons_nth_drop_Suc)
    note w = take_window_snoc[OF \<open>start \<le> i\<close> True]
    from 1 True show ?thesis
      by (subst extract_scan.simps) (auto simp: d w split: option.splits)
  qed
qed

lemma find_map_option:
  "find P (map f xs) = map_option f (find (\<lambda>x. P (f x)) xs)"
  by (induction xs) auto

lemma tl_prefixes_Cons:
  "tl (prefixes (c # cs)) = [c] # map ((#) c) (tl (prefixes cs))"
  by (cases cs) simp_all

lemma nesting_Cons:
  "nesting (c # cs) = (if c = CHR ''{'' then 1 else if c = CHR ''}'' then -1 else 0) + nesting cs"
  by (simp add: nesting_def)

lemma nesting_Nil: "nesting [] = 0"
  by (simp add: nesting_def)

lemma find_tl_prefixes_Cons:
  "find P (tl (prefixes (c # cs))) =
     (if P [c] then Some [c] else map_option ((#) c) (find (\<lambda>p. P (c # p)) (tl (prefixes cs))))"
  unfolding tl_prefixes_Cons by (simp add: find_map_option)

lemma close_prefix_find:
  "1 \<le> d \<Longrightarrow> close_prefix t d = find (\<lambda>p. d + nesting p = 0) (tl (prefixes t))"
proof (induction t arbitrary: d)
  case Nil
  then show ?case by simp
next
  case (Cons c cs)
  note step = find_tl_prefixes_Cons[of "\<lambda>p. d + nesting p = 0" c cs]
  show ?case
  proof (cases "c = CHR ''{''")
    case True
    have one: "\<not> (d + nesting [c] = 0)"
      using Cons.prems True by (simp add: nesting_def)
    have shift: "(\<lambda>p. d + nesting (c # p) = 0) = (\<lambda>p. (d + 1) + nesting p = 0)"
      using True by (intro ext) (simp add: nesting_Cons algebra_simps)
    from Cons.prems have "1 \<le> d + 1" by simp
    note IH = Cons.IH[OF this]
    have "close_prefix (c # cs) d = map_option ((#) c) (close_prefix cs (d + 1))"
      using True by simp
    also have "\<dots> = find (\<lambda>p. d + nesting p = 0) (tl (prefixes (c # cs)))"
      by (simp only: step one shift if_False IH)
    finally show ?thesis .
  next
    case nopen: False
    show ?thesis
    proof (cases "c = CHR ''}''")
      case True
      have single: "(d + nesting [c] = 0) = (d - 1 = 0)"
        using True by (simp add: nesting_def)
      have shift: "(\<lambda>p. d + nesting (c # p) = 0) = (\<lambda>p. (d - 1) + nesting p = 0)"
        using True by (intro ext) (simp add: nesting_Cons algebra_simps)
      show ?thesis
      proof (cases "d - 1 = 0")
        case yes: True
        have "close_prefix (c # cs) d = Some [c]"
          using True yes by simp
        also have "\<dots> = find (\<lambda>p. d + nesting p = 0) (tl (prefixes (c # cs)))"
          unfolding step single using yes by simp
        finally show ?thesis .
      next
        case no: False
        with Cons.prems have "1 \<le> d - 1" by simp
        note IH = Cons.IH[OF this]
        have "close_prefix (c # cs) d = map_option ((#) c) (close_prefix cs (d - 1))"
          using True no by simp
        also have "\<dots> = find (\<lambda>p. d + nesting p = 0) (tl (prefixes (c # cs)))"
          using no by (simp only: step single shift if_False IH)
        finally show ?thesis .
      qed
    next
      case False
      have one: "\<not> (d + nesting [c] = 0)"
        using Cons.prems nopen False by (simp add: nesting_def)
      have shift: "(\<lambda>p. d + nesting (c # p) = 0) = (\<lambda>p. d + nesting p = 0)"
        using nopen False by (intro ext) (simp add: nesting_Cons algebra_simps)
      note IH = Cons.IH[OF Cons.prems]
      have "close_prefix (c # cs) d = map_option ((#) c) (close_prefix cs d)"
        using nopen False by simp
      also have "\<dots> = find (\<lambda>p. d + nesting p = 0) (tl (prefixes (c # cs)))"
        by (simp only: step one shift if_False IH)
      finally show ?thesis .
    qed
  qed
qed


text \<open>
  Claim C6. For every input string, \<open>extractFirstJSON\<close> returns exactly the substring
  from the first opening brace to the position where the brace-nesting count first
  returns to zero (the first top-level brace-delimited object, nested braces included,
  even if more objects follow), and the empty string when the input has no opening brace
  or when the first opening brace is never balanced by a matching close.
\<close>

theorem extractFirstJSON_first_balanced_object:
  "extractFirstJSON s = first_balanced_object s"
proof (cases "CHR ''{'' \<in> set s")
  case False
  then have e: "dropWhile (\<lambda>c. c \<noteq> CHR ''{'') s = []" by auto
  have "first_balanced_object s = []"
    unfolding first_balanced_object_def e by simp
  with False show ?thesis
    by (simp add: extractFirstJSON_def strings_IndexByte_def)
next
  case True
  define k where "k = length (takeWhile (\<lambda>x. x \<noteq> CHR ''{'') s)"
  define t where "t = dropWhile (\<lambda>c. c \<noteq> CHR ''{'') s"
  have idx: "strings_IndexByte s CHR ''{'' = int k"
    using True by (simp add: strings_IndexByte_def k_def)
  have t_drop: "t = drop k s"
    unfolding t_def k_def by (rule dropWhile_eq_drop)
  from True have "t \<noteq> []" by (auto simp: t_def)
  with hd_dropWhile[of "\<lambda>c. c \<noteq> CHR ''{''" s] have "hd t = CHR ''{''"
    unfolding t_def by blast
  with \<open>t \<noteq> []\<close> have "t = CHR ''{'' # tl t"
    by (cases t) simp_all
  then obtain r where t: "t = CHR ''{'' # r" ..
  have shift: "(\<lambda>p. nesting (CHR ''{'' # p) = 0) = (\<lambda>p. 1 + nesting p = 0)"
    by (intro ext) (simp add: nesting_Cons)
  have one: "\<not> (nesting [CHR ''{''] = 0)"
    by (simp add: nesting_def)
  have "close_prefix t 0 = map_option ((#) CHR ''{'') (close_prefix r 1)"
    unfolding t by simp
  also have "\<dots> = find (\<lambda>p. nesting p = 0) (tl (prefixes t))"
    unfolding t find_tl_prefixes_Cons shift using one close_prefix_find[of 1 r]
    by simp
  finally have cp: "close_prefix t 0 = find (\<lambda>p. nesting p = 0) (tl (prefixes t))" .
  have "extractFirstJSON s = (case close_prefix t 0 of None \<Rightarrow> [] | Some p \<Rightarrow> p)"
    by (simp add: extractFirstJSON_def idx extract_scan_close_prefix t_drop split: option.splits)
  also have "\<dots> = first_balanced_object s"
    by (simp add: first_balanced_object_def cp t_def[symmetric])
  finally show ?thesis .
qed


text \<open>Inputs of the repository's tests, through the theorem: text around the object,
  nesting, a second object, an unclosed brace, and no brace at all.\<close>

theorem extractFirstJSON_first_balanced_object_witness:
  "extractFirstJSON ''Prefix {a: {b: 1}} and {c: 2}'' = ''{a: {b: 1}}'' \<and>
   extractFirstJSON ''{key: value'' = [] \<and>
   extractFirstJSON ''just some text'' = []"
  using extractFirstJSON_first_balanced_object [of "''Prefix {a: {b: 1}} and {c: 2}''"]
    extractFirstJSON_first_balanced_object [of "''{key: value''"]
    extractFirstJSON_first_balanced_object [of "''just some text''"]
  by (simp add: first_balanced_object_def nesting_def)

section \<open>Properties of the log splitting\<close>

lemma go_slice_window:
  "0 \<le> i \<Longrightarrow> i \<le> int (length s) - int (length sub) \<Longrightarrow>
   go_slice s i (i + int (length sub)) = Inr (take (length sub) (drop (nat i) s))"
  by (simp add: go_slice_def)

lemma findIndex_loop_result:
  "0 \<le> i \<Longrightarrow>
   (\<exists>k. findIndex_loop s sub i = Inr (int k) \<and> nat i \<le> k \<and> occurs_at s sub k \<and>
         (\<forall>j. nat i \<le> j \<and> j < k \<longrightarrow> \<not> occurs_at s sub j)) \<or>
   (findIndex_loop s sub i = Inr (- 1) \<and> (\<forall>j. nat i \<le> j \<longrightarrow> \<not> occurs_at s sub j))"
proof (induction s sub i rule: findIndex_loop.induct)
  case (1 s sub i)
  show ?case
  proof (cases "i \<le> int (length s) - int (length sub)")
    case False
    then have "findIndex_loop s sub i = Inr (- 1)"
      by (simp add: findIndex_loop.simps[of s sub i])
    moreover from False "1.prems" have "\<forall>j. nat i \<le> j \<longrightarrow> \<not> occurs_at s sub j"
      by (auto simp: occurs_at_def)
    ultimately show ?thesis by blast
  next
    case True
    note win = go_slice_window[OF "1.prems" True]
    show ?thesis
    proof (cases "take (length sub) (drop (nat i) s) = sub")
      case hit: True
      then have "findIndex_loop s sub i = Inr (int (nat i))"
        using True "1.prems" by (simp add: findIndex_loop.simps[of s sub i] win)
      moreover from hit True "1.prems" have "occurs_at s sub (nat i)"
        by (auto simp: occurs_at_def)
      ultimately show ?thesis by fastforce
    next
      case miss: False
      then have unfold: "findIndex_loop s sub i = findIndex_loop s sub (i + 1)"
        using True by (simp add: findIndex_loop.simps[of s sub i] win)
      from miss have no: "\<not> occurs_at s sub (nat i)"
        by (simp add: occurs_at_def)
      have nat_step: "nat (i + 1) = Suc (nat i)"
        using "1.prems" by simp
      from "1.prems" have "0 \<le> i + 1" by simp
      from "1.IH"[OF True win _ this] miss
      consider k where "findIndex_loop s sub (i + 1) = Inr (int k)" "nat (i + 1) \<le> k"
          "occurs_at s sub k" "\<forall>j. nat (i + 1) \<le> j \<and> j < k \<longrightarrow> \<not> occurs_at s sub j"
        | "findIndex_loop s sub (i + 1) = Inr (- 1)" "\<forall>j. nat (i + 1) \<le> j \<longrightarrow> \<not> occurs_at s sub j"
        by blast
      then show ?thesis
      proof cases
        case 1
        have "\<forall>j. nat i \<le> j \<and> j < k \<longrightarrow> \<not> occurs_at s sub j"
        proof (intro allI impI)
          fix j assume "nat i \<le> j \<and> j < k"
          then show "\<not> occurs_at s sub j"
            using no 1(4) nat_step by (cases "j = nat i") auto
        qed
        with 1 unfold nat_step show ?thesis by (intro disjI1 exI[of _ k]) auto
      next
        case 2
        have "\<forall>j. nat i \<le> j \<longrightarrow> \<not> occurs_at s sub j"
        proof (intro allI impI)
          fix j assume "nat i \<le> j"
          then show "\<not> occurs_at s sub j"
            using no 2(2) nat_step by (cases "j = nat i") auto
        qed
        with 2 unfold show ?thesis by auto
      qed
    qed
  qed
qed


text \<open>
  \<open>findIndex\<close> never panics: it returns the index of the first occurrence, or \<open>-1\<close> when
  there is none.
\<close>

lemma findIndex_first_occurrence:
  "(\<exists>k. findIndex s sub = Inr (int k) \<and> occurs_at s sub k \<and>
        (\<forall>j. j < k \<longrightarrow> \<not> occurs_at s sub j)) \<or>
   (findIndex s sub = Inr (- 1) \<and> (\<forall>j. \<not> occurs_at s sub j))"
  using findIndex_loop_result[of 0 s sub] by (simp add: findIndex_def)

lemma findIndex_found_occurs:
  assumes "findIndex s sub = Inr (int k)"
  shows "occurs_at s sub k"
  using findIndex_first_occurrence[of s sub] assms by auto

text \<open>
  What \<open>splitLogs\<close> comes to in every case: the whole text when a marker is missing;
  the two substrings when the first canary marker starts at or after the end of the
  first stable marker; a panic of the first slice expression otherwise.
\<close>

lemma splitLogs_missing:
  assumes "findIndex s stableMarker = Inr (- 1) \<or> findIndex s canaryMarker = Inr (- 1)"
  shows "splitLogs s = Inr (s, [])"
  using assms findIndex_first_occurrence[of s stableMarker]
    findIndex_first_occurrence[of s canaryMarker]
  by (auto simp: splitLogs_def)

lemma splitLogs_found:
  assumes "findIndex s stableMarker = Inr (int a)" "findIndex s canaryMarker = Inr (int b)"
  shows "splitLogs s =
           (if a + 19 \<le> b
            then Inr (take (b - (a + 19)) (drop (a + 19) s), drop (b + 19) s)
            else Inl (SliceBoundsOutOfRange (int a + 19) (int b)))"
proof -
  from findIndex_found_occurs[OF assms(2)] have b: "b + 19 \<le> length s"
    by (simp add: occurs_at_def canaryMarker_def)
  have len: "length stableMarker = 19" "length canaryMarker = 19"
    by (simp_all add: stableMarker_def canaryMarker_def)
  show ?thesis
  proof (cases "a + 19 \<le> b")
    case True
    with b have s1: "go_slice s (int a + 19) (int b) =
        Inr (take (b - (a + 19)) (drop (a + 19) s))"
      by (simp add: go_slice_def nat_diff_distrib' nat_add_distrib)
    from b have s2: "go_slice s (int b + 19) (int (length s)) = Inr (drop (b + 19) s)"
      by (simp add: go_slice_def nat_add_distrib)
    from True show ?thesis
      by (simp add: splitLogs_def assms len s1 s2)
  next
    case False
    then have "go_slice s (int a + 19) (int b) = Inl (SliceBoundsOutOfRange (int a + 19) (int b))"
      by (simp add: go_slice_def)
    with False show ?thesis
      by (simp add: splitLogs_def assms len)
  qed
qed



section \<open>Properties of the retry\<close>

text \<open>The parameter \<open>maxRetries\<close> has no effect on a call.\<close>

lemma retryWithBackoff_maxRetries_unused:
  "retryWithBackoff fuel rt ctx operation m = retryWithBackoff fuel rt ctx operation m'"
  by (simp add: retryWithBackoff_def)

text \<open>An error of a call is the aggregate error, built from the attempt count and the
  last error.\<close>

lemma retryWithBackoff_error_shape:
  "retryWithBackoff fuel rt ctx operation m = Some (Some e, st) \<Longrightarrow>
   e = ErrMaxRetries (attempt st) (lastErr st)"
  by (auto simp: retryWithBackoff_def Let_def split: option.splits)

text \<open>
  Claim C3. For an operation that always fails with a rate-limit error,
  \<open>retryWithBackoff\<close> invokes the operation at most \<open>maxAttempts\<close> times (3 in the
  reference configuration) and then returns an aggregate error naming the attempt count
  and the last underlying error. The code returns the aggregate error, but it does not
  cap the attempts: called with \<open>maxRetries = 3\<close> on an operation that always returns a
  rate-limit error, it invokes the operation 20 times, until the 15 minutes of the
  library's default \<open>MaxElapsedTime\<close> are used up (waits of 1, 2, 4, 8, 16, 32 and then
  13 times 60 seconds).
\<close>

theorem retryWithBackoff_rate_limited_20_attempts:
  "observed (retryWithBackoff 20 example_runtime None always_rate_limited 3) =
     Some (Some (ErrMaxRetries 20 (Some rate_limit_error)), 20,
           [1 * second, 2 * second, 4 * second, 8 * second, 16 * second, 32 * second,
            60 * second, 60 * second, 60 * second, 60 * second, 60 * second, 60 * second,
            60 * second, 60 * second, 60 * second, 60 * second, 60 * second, 60 * second,
            60 * second])"
  by code_simp

lemma operationWithLogging_permanent:
  assumes "operation (Suc (attempt st)) = Some err" "\<not> rate_limited err"
  shows "operationWithLogging rt operation st =
           (OpPermanent err,
            st\<lparr>attempt := Suc (attempt st),
               elapsed := elapsed st + op_duration rt (Suc (attempt st)),
               lastErr := Some err\<rparr>)"
  using assms
  by (cases err) (simp_all add: operationWithLogging_def Let_def StatusTooManyRequests_def)


text \<open>
  Claim C4. For every operation whose error is not a rate-limit signal (neither HTTP
  code 429 nor status \<open>RESOURCE_EXHAUSTED\<close>), \<open>retryWithBackoff\<close> invokes the operation
  exactly once and surfaces the failure without further attempts and without waiting,
  whatever the attempt budget, the context and the run-time.
\<close>

theorem retryWithBackoff_permanent_once:
  assumes "operation 1 = Some err" and "\<not> rate_limited err"
  shows "observed (retryWithBackoff (Suc fuel) rt ctx operation maxRetries) =
           Some (Some (ErrMaxRetries 1 (Some err)), 1, [])"
  using assms
  by (simp add: observed_def retryWithBackoff_def Reset_def operationWithLogging_permanent)

theorem retryWithBackoff_permanent_once_witness:
  "\<not> rate_limited bad_request_error \<and>
   observed (retryWithBackoff 1 example_runtime None always_bad_request 3) =
     Some (Some (ErrMaxRetries 1 (Some bad_request_error)), 1, [])"
  using retryWithBackoff_permanent_once
    [of always_bad_request bad_request_error 0 example_runtime None 3]
  by (simp add: bad_request_error_def always_bad_request_def)

lemma NextBackOff_pins:
  "NextBackOff rnd b = (next, b') \<Longrightarrow>
   InitialInterval b' = InitialInterval b \<and> MaxInterval b' = MaxInterval b"
  by (auto simp: NextBackOff_def incrementCurrentInterval_def Let_def split: if_splits)

lemma operationWithLogging_attempt:
  "operationWithLogging rt operation st = (out, st') \<Longrightarrow> attempt st' = Suc (attempt st)"
  by (auto simp: operationWithLogging_def Let_def split: option.splits go_error.splits if_splits)

lemma operationWithLogging_pins:
  assumes "operationWithLogging rt operation st = (out, st')" "pins_hold rt operation st"
  shows "pins_hold rt operation st'"
proof (cases "operation (Suc (attempt st))")
  case None
  with assms show ?thesis
    by (auto simp: operationWithLogging_def Let_def pins_hold_def)
next
  case (Some err)
  show ?thesis
  proof (cases err)
    case (APIError code message status details)
    with assms Some show ?thesis
      by (auto simp: operationWithLogging_def Let_def pins_hold_def Reset_def
            StatusTooManyRequests_def split: if_splits)
  qed (use assms Some in \<open>auto simp: operationWithLogging_def Let_def pins_hold_def\<close>)
qed

lemma Retry_pins:
  "Retry fuel rt ctx operation MaxTries MaxElapsedTime numTries st = Some (e, st') \<Longrightarrow>
   pins_hold rt operation st \<Longrightarrow> pins_hold rt operation st'"
proof (induction fuel arbitrary: numTries st)
  case 0
  then show ?case by simp
next
  case (Suc fuel)
  obtain out st1 where op: "operationWithLogging rt operation st = (out, st1)"
    by (cases "operationWithLogging rt operation st")
  note p1 = operationWithLogging_pins[OF op Suc.prems(2)]
  show ?case
  proof (cases out)
    case OpSuccess
    with Suc.prems(1) op p1 show ?thesis by simp
  next
    case (OpPermanent err)
    with Suc.prems(1) op p1 show ?thesis by simp
  next
    case (OpRetryable err)
    obtain "next" b where nb: "NextBackOff (jitter rt (draws st1)) (backoffConfig st1) = (next, b)"
      by (cases "NextBackOff (jitter rt (draws st1)) (backoffConfig st1)")
    from NextBackOff_pins[OF nb] p1
    have p2: "pins_hold rt operation (st1\<lparr>backoffConfig := b, draws := Suc (draws st1)\<rparr>)"
      by (simp add: pins_hold_def)
    then have p3: "pins_hold rt operation
        (st1\<lparr>backoffConfig := b, draws := Suc (draws st1),
             elapsed := elapsed st1 + next, waits := waits st1 @ [next]\<rparr>)"
      and p4: "\<And>c. pins_hold rt operation
        (st1\<lparr>backoffConfig := b, draws := Suc (draws st1), elapsed := c\<rparr>)"
      by (simp_all add: pins_hold_def)
    from Suc.prems(1) op OpRetryable nb p1 p2 p4 Suc.IH[OF _ p3] show ?thesis
      by (auto simp: Let_def split: if_splits option.splits)
  qed
qed


text \<open>
  What the closure does to the two intervals: a positive hint sets both, and nothing
  sets them back, so when a call returns both intervals are the last positive hint
  among the attempts made (1 s and 60 s when there was none).
\<close>

lemma retryWithBackoff_hint_pins:
  assumes "retryWithBackoff fuel rt ctx operation maxRetries = Some (e, st)"
  shows "InitialInterval (backoffConfig st) =
           (case hint_in_force (ParseDuration rt) operation (attempt st) of
              None \<Rightarrow> 1 * second | Some d \<Rightarrow> d) \<and>
         MaxInterval (backoffConfig st) =
           (case hint_in_force (ParseDuration rt) operation (attempt st) of
              None \<Rightarrow> 60 * second | Some d \<Rightarrow> d)"
proof -
  let ?st0 = "\<lparr>attempt = 0, lastErr = None,
      backoffConfig = Reset (Reset \<lparr>InitialInterval = 1 * second, MaxInterval = 60 * second,
                                   currentInterval = 0\<rparr>),
      elapsed = 0, draws = 0, waits = []\<rparr>"
  have init: "pins_hold rt operation ?st0"
    by (simp add: pins_hold_def Reset_def)
  from assms obtain e' where
    "Retry fuel rt ctx operation 0 DefaultMaxElapsedTime 1 ?st0 = Some (e', st)"
    by (auto simp: retryWithBackoff_def Let_def split: option.splits)
  from Retry_pins[OF this init] show ?thesis
    by (simp add: pins_hold_def)
qed

text \<open>
  A hint of 30 s at the first of three rate-limited attempts, then success. No wait is
  the hint: the waits are 1, 2 and 4 seconds, the exponential schedule from the initial
  interval of before. Both intervals are 30 s at the end, three attempts after the hint.
\<close>

lemma retryWithBackoff_hint_then_rate_limited:
  "\<exists>e st. retryWithBackoff 4 example_runtime None hint_then_rate_limited 3 = Some (e, st) \<and>
      attempt st = 4 \<and> waits st = [1 * second, 2 * second, 4 * second] \<and>
      InitialInterval (backoffConfig st) = 30 * second \<and>
      MaxInterval (backoffConfig st) = 30 * second"
proof -
  let ?op = hint_then_rate_limited
  obtain r where r: "retryWithBackoff 4 example_runtime None ?op 3 = r" by simp
  have o: "observed r = Some (None, 4, [1 * second, 2 * second, 4 * second])"
    unfolding r[symmetric] by code_simp
  then obtain e st where st: "r = Some (e, st)" "attempt st = 4"
      "waits st = [1 * second, 2 * second, 4 * second]"
    by (auto simp: observed_def)
  have h: "hint_in_force parse_seconds ?op 4 = Some (30 * second)"
    by code_simp
  from retryWithBackoff_hint_pins[OF r[unfolded st(1)]] st(2) h
  have "InitialInterval (backoffConfig st) = 30 * second \<and>
        MaxInterval (backoffConfig st) = 30 * second"
    by (simp add: example_runtime_def)
  with r st show ?thesis by blast
qed

text \<open>A call that ends well ends on a call of the operation that returned \<open>nil\<close>.\<close>

lemma Retry_success:
  "Retry fuel rt ctx operation MaxTries MaxElapsedTime numTries st = Some (None, st') \<Longrightarrow>
   operation (attempt st') = None"
proof (induction fuel arbitrary: numTries st)
  case 0
  then show ?case by simp
next
  case (Suc fuel)
  obtain out st1 where op: "operationWithLogging rt operation st = (out, st1)"
    by (cases "operationWithLogging rt operation st")
  show ?case
  proof (cases out)
    case OpSuccess
    with op have "operation (attempt st1) = None"
      by (auto simp: operationWithLogging_def Let_def
          split: option.splits go_error.splits if_splits)
    with Suc.prems op OpSuccess show ?thesis by simp
  next
    case (OpPermanent err)
    with Suc.prems op show ?thesis by simp
  next
    case (OpRetryable err)
    obtain "next" b where nb: "NextBackOff (jitter rt (draws st1)) (backoffConfig st1) = (next, b)"
      by (cases "NextBackOff (jitter rt (draws st1)) (backoffConfig st1)")
    from Suc.prems op OpRetryable nb Suc.IH show ?thesis
      by (auto simp: Let_def split: if_splits option.splits)
  qed
qed

lemma retryWithBackoff_success:
  "retryWithBackoff fuel rt ctx operation m = Some (None, st) \<Longrightarrow>
   operation (attempt st) = None"
  by (auto simp: retryWithBackoff_def Let_def dest: Retry_success split: option.splits)

text \<open>
  Claim C5. When a rate-limit error carries a parseable retry hint (a \<open>RetryInfo\<close> detail
  with a \<open>retryDelay\<close> such as \<open>"30s"\<close>), \<open>retryWithBackoff\<close> uses that duration verbatim
  as the wait before the next attempt. The code does not: the first attempt fails with
  a rate-limit error whose hint is \<open>"30s"\<close>, the second succeeds, and the wait between
  them is 1 second. The closure means to wait for the hint (it logs \<open>using API-suggested
  wait time\<close>, under the comment \<open>Override backoff with API-suggested wait time\<close>), but
  it calls \<open>backoffConfig.Reset()\<close> before it assigns \<open>InitialInterval\<close> and
  \<open>MaxInterval\<close>, so the current interval, from which the next wait is drawn, is the
  initial interval of before the hint.
\<close>

theorem retry_hint_not_the_next_wait:
  "retry_hint parse_seconds (Some (rate_limit_error_hint ''30s'')) = 30 * second \<and>
   observed (retryWithBackoff 2 example_runtime None hint_then_success 3) =
     Some (None, 2, [1 * second])"
  by code_simp
section \<open>Properties of the formatting\<close>

text \<open>
  Rounding to the nearest integer, ties to even: the result is within half a unit, and
  an integer closer than half a unit is the result.
\<close>

lemma round_half_even_close: "0 < d \<Longrightarrow> 2 * \<bar>round_half_even n d * d - n\<bar> \<le> d"
proof -
  assume d: "0 < d"
  define q where "q = n div d"
  define r where "r = n mod d"
  have n: "n = q * d + r" by (simp add: q_def r_def)
  have r: "0 \<le> r" "r < d" using d by (simp_all add: r_def)
  have "(q + 1) * d = q * d + d" by (simp add: algebra_simps)
  then show ?thesis
    using r unfolding round_half_even_def Let_def q_def[symmetric] r_def[symmetric] n
    by auto
qed

lemma round_half_even_unique:
  assumes "0 < d" "2 * \<bar>n - c * d\<bar> < d"
  shows "round_half_even n d = c"
proof -
  define q where "q = n div d"
  define r where "r = n mod d"
  have n: "n = q * d + r" by (simp add: q_def r_def)
  have r: "0 \<le> r" "r < d" using assms(1) by (simp_all add: r_def)
  define k where "k = q - c"
  define p where "p = k * d"
  have e: "n - c * d = p + r" by (simp add: n k_def p_def algebra_simps)
  have lo: "k \<le> - 2 \<Longrightarrow> p \<le> - d - d"
    using assms(1) mult_right_mono[of k "- 2" d] by (simp add: p_def)
  have hi: "1 \<le> k \<Longrightarrow> d \<le> p"
    using assms(1) mult_right_mono[of 1 k d] by (simp add: p_def)
  have km1: "k = - 1 \<Longrightarrow> p = - d" by (simp add: p_def)
  have k0: "k = 0 \<Longrightarrow> p = 0" by (simp add: p_def)
  note b = assms(2)[unfolded e] assms(1)
  consider "k \<le> - 2" | "k = - 1" | "k = 0" | "1 \<le> k" by linarith
  then have "(2 * r < d \<and> k = 0) \<or> (2 * r > d \<and> k = - 1)"
  proof cases
    case 1
    from lo[OF 1] b r have False by (simp add: abs_if split: if_splits)
    then show ?thesis ..
  next
    case 2
    from km1[OF 2] b r 2 show ?thesis by (simp add: abs_if split: if_splits)
  next
    case 3
    from k0[OF 3] b r 3 show ?thesis by (simp add: abs_if split: if_splits)
  next
    case 4
    from hi[OF 4] b r have False by (simp add: abs_if split: if_splits)
    then show ?thesis ..
  qed
  then show ?thesis
    unfolding round_half_even_def Let_def q_def[symmetric] r_def[symmetric] k_def
    by auto
qed

lemma round_half_even_one: "round_half_even n 1 = n"
  by (simp add: round_half_even_def)

lemma round_half_even_nonneg: "0 \<le> n \<Longrightarrow> 0 < d \<Longrightarrow> 0 \<le> round_half_even n d"
  by (simp add: round_half_even_def Let_def pos_imp_zdiv_nonneg_iff)

lemma bit_length_le: "n < 2 ^ k \<Longrightarrow> bit_length n \<le> k"
proof (induction k arbitrary: n)
  case 0
  then show ?case by (simp add: bit_length.simps[of n])
next
  case (Suc k)
  show ?case
  proof (cases "n \<le> 0")
    case True
    then show ?thesis by (simp add: bit_length.simps[of n])
  next
    case False
    from Suc.prems have "n div 2 < 2 ^ k" by simp
    from Suc.IH[OF this] False show ?thesis
      by (simp add: bit_length.simps[of n])
  qed
qed

lemma float64_of_int_exact:
  assumes "0 < c" "c < 2 ^ 52"
  shows "\<exists>s. 0 < s \<and> float64_of_int c = (c * 2 ^ s, - int s)"
proof -
  from bit_length_le[OF assms(2)] have b: "bit_length c \<le> 52" .
  define s where "s = 53 - bit_length c"
  from b have s: "0 < s" "int s = 53 - int (bit_length c)" by (simp_all add: s_def)
  have "float64_of_int c = (c * 2 ^ s, - int s)"
    using assms(1) b s
    unfolding float64_of_int_def round_float64_def floor_log2_ratio_def Let_def
    by (simp add: round_half_even_one s_def)
  with s(1) show ?thesis by blast
qed

lemma round_float64_shape:
  assumes "0 < a" "0 < d" "a div d < 2 ^ 46"
  shows "\<exists>s. 7 \<le> s \<and> round_float64 a d = (round_half_even (a * 2 ^ s) d, - int s)"
proof -
  have fl: "floor_log2_ratio a d \<le> 45"
  proof (cases "d \<le> a")
    case True
    with bit_length_le[OF assms(3)] show ?thesis
      by (simp add: floor_log2_ratio_def)
  next
    case False
    then show ?thesis by (simp add: floor_log2_ratio_def)
  qed
  define s where "s = nat (52 - floor_log2_ratio a d)"
  from fl have s: "7 \<le> s" "int s = 52 - floor_log2_ratio a d" by (simp_all add: s_def)
  have "round_float64 a d = (round_half_even (a * 2 ^ s) d, - int s)"
    using assms(1) fl unfolding round_float64_def Let_def by (simp add: s_def)
  with s(1) show ?thesis by blast
qed

lemma Sprintf_2f_hundredths:
  assumes "0 < c" "c < 2 ^ 52"
  shows "Sprintf_2f (float64_div (float64_of_int c) 100) = two_decimals c"
proof -
  from float64_of_int_exact[OF assms] obtain s1 where
    s1: "0 < s1" "float64_of_int c = (c * 2 ^ s1, - int s1)" by blast
  define a where "a = c * 2 ^ s1"
  define d :: int where "d = 100 * 2 ^ s1"
  have pos: "0 < a" "0 < d" using assms(1) by (simp_all add: a_def d_def)
  have "a div d = c div 100" by (simp add: a_def d_def)
  also have "\<dots> < 2 ^ 46" using assms(2) by simp
  finally have "a div d < 2 ^ 46" .
  from round_float64_shape[OF pos this] obtain s2 where
    s2: "7 \<le> s2" "round_float64 a d = (round_half_even (a * 2 ^ s2) d, - int s2)" by blast
  define m where "m = round_half_even (a * 2 ^ s2) d"
  have div: "float64_div (float64_of_int c) 100 = (m, - int s2)"
    using s1 s2 by (simp add: float64_div_def a_def d_def m_def)
  have m0: "0 \<le> m"
    unfolding m_def using pos by (intro round_half_even_nonneg) simp_all
  from round_half_even_close[OF pos(2), of "a * 2 ^ s2"]
  have "2 * \<bar>m * d - a * 2 ^ s2\<bar> \<le> d" by (simp add: m_def)
  then have "2 * \<bar>(m * 100 - c * 2 ^ s2) * 2 ^ s1\<bar> \<le> 100 * 2 ^ s1"
    by (simp add: a_def d_def algebra_simps)
  then have "2 * \<bar>m * 100 - c * 2 ^ s2\<bar> * 2 ^ s1 \<le> 100 * 2 ^ s1"
    by (simp add: abs_mult)
  then have close: "2 * \<bar>m * 100 - c * 2 ^ s2\<bar> \<le> 100"
    by simp
  have "(2::int) ^ 7 \<le> 2 ^ s2" using s2(1) by (intro power_increasing) simp_all
  with close have "2 * \<bar>m * 100 - c * 2 ^ s2\<bar> < 2 ^ s2" by simp
  from round_half_even_unique[OF _ this] have h: "round_half_even (m * 100) (2 ^ s2) = c" by simp
  from s2(1) have neg: "\<not> (0 \<le> - int s2)" by simp
  show ?thesis
    unfolding div Sprintf_2f_def two_decimals_def using m0 neg h
    by (simp add: Let_def)
qed

lemma Sprintf_2f_zero: "Sprintf_2f (float64_div (float64_of_int 0) 100) = two_decimals 0"
  by (simp add: Sprintf_2f_def float64_div_def float64_of_int_def round_float64_def two_decimals_def)


text \<open>
  For every confidence from 0 below \<open>2 ^ 52\<close>, the \<open>float64\<close> quotient by 100 printed
  with \<open>%.2f\<close> shows exactly the hundredths of the confidence: the rounding of the
  division is undone by the rounding of the formatting.
\<close>

lemma Sprintf_2f_confidence:
  assumes "0 \<le> c" "c < 2 ^ 52"
  shows "Sprintf_2f (float64_div (float64_of_int c) 100) = two_decimals c"
proof (cases "c = 0")
  case True
  then show ?thesis by (simp add: Sprintf_2f_zero)
next
  case False
  with assms show ?thesis by (intro Sprintf_2f_hundredths) simp_all
qed

lemma two_decimals_examples:
  "two_decimals 100 = ''1.00''" "two_decimals 0 = ''0.00''" "two_decimals 7 = ''0.07''"
  by code_simp+

section \<open>Properties of the engine\<close>

text \<open>
  Claim C1. For every decision record with \<open>promote = true\<close> and a confidence \<open>c\<close> in
  \<open>[0, 100]\<close>, \<open>Run\<close> produces a successful measurement whose value is \<open>c / 100\<close> written
  with two decimal places (\<open>1.00\<close> for 100, \<open>0.00\<close> for 0); for every decision record with
  \<open>promote = false\<close> the value is the string \<open>0\<close>, whatever the confidence. The record is
  the one the analysis of this run returned, in direct or in delegated mode.
\<close>

theorem Run_value_of_decision:
  assumes "Run_analyse fuel w = (Inr a, calls)"
  shows "(Promote (an_result a) \<and> 0 \<le> Confidence (an_result a) \<and>
           Confidence (an_result a) \<le> 100 \<longrightarrow>
            (\<exists>m. fst (Run fuel w) = Return m \<and> Phase m = AnalysisPhaseSuccessful \<and>
                 Value m = two_decimals (Confidence (an_result a)))) \<and>
         (\<not> Promote (an_result a) \<longrightarrow>
            (\<exists>m. fst (Run fuel w) = Return m \<and> Phase m = AnalysisPhaseFailed \<and>
                 Value m = ''0''))"
proof (intro conjI impI)
  assume p: "Promote (an_result a) \<and> 0 \<le> Confidence (an_result a) \<and>
    Confidence (an_result a) \<le> 100"
  then have "Confidence (an_result a) < 2 ^ 52" by simp
  with p have "Sprintf_2f (float64_div (float64_of_int (Confidence (an_result a))) 100) =
      two_decimals (Confidence (an_result a))"
    by (intro Sprintf_2f_confidence) simp_all
  with p assms show "\<exists>m. fst (Run fuel w) = Return m \<and> Phase m = AnalysisPhaseSuccessful \<and>
      Value m = two_decimals (Confidence (an_result a))"
    by (simp add: Run_def Run_resolve_def Let_def)
next
  assume "\<not> Promote (an_result a)"
  with assms show "\<exists>m. fst (Run fuel w) = Return m \<and> Phase m = AnalysisPhaseFailed \<and>
      Value m = ''0''"
    by (simp add: Run_def Run_resolve_def Let_def split: option.splits)
qed

text \<open>The two tests of the repository: the model answers with confidence 100 and
  \<open>promote\<close> true, and with confidence 90 and \<open>promote\<close> false.\<close>

lemma Run_analyse_example_ok:
  "\<exists>a calls. Run_analyse 1 (example_world direct_cfg ok_json agent_answer_150) = (Inr a, calls) \<and>
     an_result a = \<lparr>Text = ''ok'', Promote = True, Confidence = 100\<rparr>"
  by (simp add: Run_analyse_def example_world_def direct_cfg_def zero_aiConfig_def
      stableSelector_of_def canarySelector_of_def modelName_of_def
      AnalysisModeDefault_def AnalysisModeAgent_def resolve_podName_def
      analyzeWithMode_def analyzeLogsWithAI_def generate_operation_def
      retryWithBackoff_def Reset_def operationWithLogging_def
      concatCandidates_def parse_analysis_def example_Unmarshal_def
      ascii_TrimSpace_def is_space_def ok_json_def Let_def)

lemma Run_analyse_example_bad:
  "\<exists>a calls. Run_analyse 1 (example_world direct_cfg bad_json agent_answer_150) = (Inr a, calls) \<and>
     an_result a = \<lparr>Text = ''canary is bad'', Promote = False, Confidence = 90\<rparr>"
  by (simp add: Run_analyse_def example_world_def direct_cfg_def zero_aiConfig_def
      stableSelector_of_def canarySelector_of_def modelName_of_def
      AnalysisModeDefault_def AnalysisModeAgent_def resolve_podName_def
      analyzeWithMode_def analyzeLogsWithAI_def generate_operation_def
      retryWithBackoff_def Reset_def operationWithLogging_def
      concatCandidates_def parse_analysis_def example_Unmarshal_def
      ascii_TrimSpace_def is_space_def ok_json_def bad_json_def Let_def)

theorem Run_value_of_decision_witness:
  "(\<exists>m. fst (Run 1 (example_world direct_cfg ok_json agent_answer_150)) = Return m \<and>
        Phase m = AnalysisPhaseSuccessful \<and> Value m = ''1.00'') \<and>
   (\<exists>m. fst (Run 1 (example_world direct_cfg bad_json agent_answer_150)) = Return m \<and>
        Phase m = AnalysisPhaseFailed \<and> Value m = ''0'')"
proof
  from Run_analyse_example_ok obtain a calls where
    a: "Run_analyse 1 (example_world direct_cfg ok_json agent_answer_150) = (Inr a, calls)"
      "an_result a = \<lparr>Text = ''ok'', Promote = True, Confidence = 100\<rparr>"
    by blast
  from Run_value_of_decision[OF a(1)] a(2)
  show "\<exists>m. fst (Run 1 (example_world direct_cfg ok_json agent_answer_150)) = Return m \<and>
        Phase m = AnalysisPhaseSuccessful \<and> Value m = ''1.00''"
    by (simp add: two_decimals_examples)
next
  from Run_analyse_example_bad obtain a calls where
    a: "Run_analyse 1 (example_world direct_cfg bad_json agent_answer_150) = (Inr a, calls)"
      "an_result a = \<lparr>Text = ''canary is bad'', Promote = False, Confidence = 90\<rparr>"
    by blast
  from Run_value_of_decision[OF a(1)] a(2)
  show "\<exists>m. fst (Run 1 (example_world direct_cfg bad_json agent_answer_150)) = Return m \<and>
        Phase m = AnalysisPhaseFailed \<and> Value m = ''0''"
    by simp
qed

text \<open>
  Claim C7, as stated: when agent mode is requested and the namespace or the pod name is
  empty, the engine fails at once with a configuration error, never falls back to
  direct mode, and makes no network call. \<open>Run\<close> checks the agent configuration only
  after it has acquired the Kubernetes client and read the logs of both pods: in agent
  mode without a pod name, with the canary pods gone, it makes three calls to the
  cluster and returns a successful measurement with value \<open>1\<close>, no configuration error.
\<close>

theorem Run_agent_unconfigured_canary_missing:
  "Run 1 world_canary_missing =
     (Return (newMeasurement\<lparr>Value := ''1'', Phase := AnalysisPhaseSuccessful\<rparr>),
      [CallAcquireKubeClient,
       CallReadFirstPodLogs ''default'' ''role=stable'',
       CallReadFirstPodLogs ''default'' ''role=canary''])"
  by (simp add: Run_def Run_analyse_def world_canary_missing_def example_world_def
      agent_cfg_no_pod_def zero_aiConfig_def logs_canary_missing_def
      stableSelector_of_def canarySelector_of_def modelName_of_def Let_def)

text \<open>
  Claim C7, amended. When agent mode is requested and the namespace or the pod name is
  empty, \<open>Run\<close> never starts an analysis, neither by the agent nor, as a fallback, by
  the model: its only calls to the outside are the ones that acquire the Kubernetes
  client and read the pod logs, which come before the check. Once the client is there
  and both logs are read, \<open>Run\<close> returns the configuration error, after exactly these
  three calls.
\<close>

theorem Run_agent_unconfigured:
  assumes "w_pluginConfig w = Some (Inr cfg)"
      and "AnalysisMode cfg = AnalysisModeAgent"
      and "Namespace cfg = [] \<or> PodName cfg = []"
  shows "list_all cluster_call (snd (Run fuel w)) \<and>
         (w_acquireKubeClient w = None \<and>
          (\<exists>logs. w_readFirstPodLogs w (w_runNamespace w) (stableSelector_of cfg) = Inr logs) \<and>
          (\<exists>logs. w_readFirstPodLogs w (w_runNamespace w) (canarySelector_of cfg) = Inr logs) \<longrightarrow>
          Run fuel w =
            (Return (markMeasurementError newMeasurement
               (ErrorString ''agent mode requires namespace and podName to be configured'')),
             [CallAcquireKubeClient,
              CallReadFirstPodLogs (w_runNamespace w) (stableSelector_of cfg),
              CallReadFirstPodLogs (w_runNamespace w) (canarySelector_of cfg)]))"
proof -
  from assms(2) have mode: "AnalysisMode cfg \<noteq> []"
    by (simp add: AnalysisModeAgent_def)
  show ?thesis
    using assms mode
    by (auto simp: Run_def Run_analyse_def Let_def split: option.splits sum.splits)
qed

theorem Run_agent_unconfigured_witness:
  "list_all cluster_call (snd (Run 1 (example_world agent_cfg_no_pod ok_json agent_answer_150))) \<and>
   Run 1 (example_world agent_cfg_no_pod ok_json agent_answer_150) =
     (Return (markMeasurementError newMeasurement
        (ErrorString ''agent mode requires namespace and podName to be configured'')),
      [CallAcquireKubeClient,
       CallReadFirstPodLogs ''default'' ''role=stable'',
       CallReadFirstPodLogs ''default'' ''role=canary''])"
  using Run_agent_unconfigured
    [of "example_world agent_cfg_no_pod ok_json agent_answer_150" agent_cfg_no_pod 1]
  by (simp add: example_world_def agent_cfg_no_pod_def zero_aiConfig_def
      AnalysisModeAgent_def stableSelector_of_def canarySelector_of_def)

section \<open>Properties of the analyzers\<close>

text \<open>
  Claim C2, as stated: when the model call succeeds but the text neither parses nor
  parses after extraction, \<open>analyzeLogsWithAI\<close> returns the zero-value record paired
  with the original raw text and a nil error. The model answers
  \<open>I cannot tell {not json} sorry\<close>; the function returns the zero-value record and a nil
  error, but paired with the extracted block \<open>{not json}\<close>: \<open>rawJSON\<close> is assigned the
  block before the second parse.
\<close>

theorem analyzeLogsWithAI_returns_extracted_block:
  "fst (analyzeLogsWithAI 1 (example_world direct_cfg prose_answer agent_answer_150)
          dummy_params) =
     Return (''{not json}'', zero_AIAnalysisResult, None) \<and>
   ascii_TrimSpace prose_answer = ''I cannot tell {not json} sorry''"
  by (simp add: analyzeLogsWithAI_def example_world_def generate_operation_def
      retryWithBackoff_def Reset_def operationWithLogging_def concatCandidates_def
      parse_analysis_def example_Unmarshal_def ascii_TrimSpace_def is_space_def
      prose_answer_def ok_json_def bad_json_def sure_json_def
      extractFirstJSON_def strings_IndexByte_def extract_scan.simps Let_def)

text \<open>What \<open>analyzeLogsWithAI\<close> returns once the model call has succeeded and the text
  of the response is there.\<close>

lemma analyzeLogsWithAI_after_success:
  assumes "w_getSecretValue w ''argo-rollouts'' ''google_api_key'' = Inr apiKey"
      and "w_NewClient w apiKey = None"
      and "retryWithBackoff fuel (w_runtime w) None (generate_operation w params) 3 =
             Some (None, st)"
      and "w_GenerateContent w (ModelName params) (request_text params) (attempt st) = Inr resp"
      and "concatCandidates resp = Inr txt"
  shows "fst (analyzeLogsWithAI fuel w params) =
           Return (fst (parse_analysis w txt), snd (parse_analysis w txt), None)"
  using assms by (simp add: analyzeLogsWithAI_def Let_def split: prod.splits)

text \<open>
  Claim C2, amended. When the model call succeeds but the trimmed text of the response
  fails to parse, and the extracted block, if there is one, fails to parse too, then
  \<open>analyzeLogsWithAI\<close> returns a nil error; as raw text the extracted block when there
  is one, the trimmed text of the response otherwise; and the record as the two failed
  decodings left it. That record is the zero value when each of the two failed decodings
  left its target as it was (as \<open>json.Unmarshal\<close> does on a text that is no JSON; on a
  JSON text with a field of the wrong type it stores the other fields).
\<close>

theorem analyzeLogsWithAI_unparsable:
  assumes "w_getSecretValue w ''argo-rollouts'' ''google_api_key'' = Inr apiKey"
      and "w_NewClient w apiKey = None"
      and "retryWithBackoff fuel (w_runtime w) None (generate_operation w params) 3 =
             Some (None, st)"
      and "w_GenerateContent w (ModelName params) (request_text params) (attempt st) = Inr resp"
      and "concatCandidates resp = Inr txt"
      and trimmed: "trimmed = w_TrimSpace w txt"
      and first: "w_Unmarshal w trimmed zero_AIAnalysisResult = (Some e1, obj1)"
      and block: "block = extractFirstJSON trimmed"
      and second: "block \<noteq> [] \<longrightarrow> fst (w_Unmarshal w block obj1) \<noteq> None"
  shows "fst (analyzeLogsWithAI fuel w params) =
           Return (if block \<noteq> [] then block else trimmed,
                   if block \<noteq> [] then snd (w_Unmarshal w block obj1) else obj1,
                   None) \<and>
         (obj1 = zero_AIAnalysisResult \<and>
          (block \<noteq> [] \<longrightarrow> snd (w_Unmarshal w block obj1) = obj1) \<longrightarrow>
            fst (analyzeLogsWithAI fuel w params) =
              Return (if block \<noteq> [] then block else trimmed, zero_AIAnalysisResult, None))"
proof -
  have "parse_analysis w txt =
      (if block \<noteq> [] then block else trimmed,
       if block \<noteq> [] then snd (w_Unmarshal w block obj1) else obj1)"
    using first by (simp add: parse_analysis_def Let_def trimmed[symmetric] block[symmetric])
  with analyzeLogsWithAI_after_success[OF assms(1-5)]
  have ret: "fst (analyzeLogsWithAI fuel w params) =
      Return (if block \<noteq> [] then block else trimmed,
              if block \<noteq> [] then snd (w_Unmarshal w block obj1) else obj1, None)"
    by simp
  then show ?thesis by auto
qed

text \<open>
  The theorem at three answers of the model: a text with a block in braces, a text
  without braces (both decoded by a decoder that leaves its target as it was), and the
  JSON text whose \<open>promote\<close> is a string, which fails twice and leaves a record that is
  not the zero value.
\<close>

lemma retryWithBackoff_first_call_succeeds:
  assumes "operation 1 = None"
  shows "\<exists>st. retryWithBackoff (Suc fuel) rt ctx operation m = Some (None, st) \<and> attempt st = 1"
  using assms by (simp add: retryWithBackoff_def Reset_def operationWithLogging_def Let_def)

lemma example_world_first_call:
  "\<exists>st. retryWithBackoff 1 (w_runtime (example_world cfg answer agent_answer)) None
           (generate_operation (example_world cfg answer agent_answer) dummy_params) 3 =
         Some (None, st)"
proof -
  have "generate_operation (example_world cfg answer agent_answer) dummy_params 1 = None"
    by (simp add: generate_operation_def example_world_def)
  from retryWithBackoff_first_call_succeeds
    [of "generate_operation (example_world cfg answer agent_answer) dummy_params" 0
      "w_runtime (example_world cfg answer agent_answer)" None 3, OF this]
  show ?thesis by auto
qed

lemma world_type_mismatch_first_call:
  "\<exists>st. retryWithBackoff 1 (w_runtime world_type_mismatch) None
           (generate_operation world_type_mismatch dummy_params) 3 = Some (None, st)"
proof -
  have "generate_operation world_type_mismatch dummy_params 1 = None"
    by (simp add: generate_operation_def world_type_mismatch_def example_world_def)
  from retryWithBackoff_first_call_succeeds
    [of "generate_operation world_type_mismatch dummy_params" 0
      "w_runtime world_type_mismatch" None 3, OF this]
  show ?thesis by auto
qed

theorem analyzeLogsWithAI_unparsable_witness:
  "fst (analyzeLogsWithAI 1 (example_world direct_cfg prose_answer agent_answer_150)
          dummy_params) =
     Return (''{not json}'', zero_AIAnalysisResult, None) \<and>
   fst (analyzeLogsWithAI 1 (example_world direct_cfg ''no braces at all '' agent_answer_150)
          dummy_params) =
     Return (''no braces at all'', zero_AIAnalysisResult, None) \<and>
   fst (analyzeLogsWithAI 1 world_type_mismatch dummy_params) =
     Return (mismatch_json, \<lparr>Text = ''x'', Promote = False, Confidence = 80\<rparr>, None)"
proof (intro conjI)
  let ?w = "example_world direct_cfg prose_answer agent_answer_150"
  from example_world_first_call obtain st where
    st: "retryWithBackoff 1 (w_runtime ?w) None (generate_operation ?w dummy_params) 3
      = Some (None, st)" by blast
  have trim: "w_TrimSpace ?w prose_answer = prose_answer"
    by (simp add: example_world_def ascii_TrimSpace_def is_space_def prose_answer_def)
  have ex: "extractFirstJSON prose_answer = ''{not json}''"
    by (simp add: prose_answer_def extractFirstJSON_def strings_IndexByte_def
        extract_scan.simps)
  have un: "w_Unmarshal ?w = example_Unmarshal"
    by (simp add: example_world_def)
  have f1: "example_Unmarshal prose_answer zero_AIAnalysisResult =
      (Some (ErrorString ''invalid character''), zero_AIAnalysisResult)"
    by (simp add: example_Unmarshal_def prose_answer_def ok_json_def bad_json_def sure_json_def)
  have f2: "example_Unmarshal ''{not json}'' zero_AIAnalysisResult =
      (Some (ErrorString ''invalid character''), zero_AIAnalysisResult)"
    by (simp add: example_Unmarshal_def ok_json_def bad_json_def sure_json_def)
  from analyzeLogsWithAI_unparsable
    [of ?w "''an-api-key''" 1 dummy_params st "Some [Candidate (Some [prose_answer])]"
      prose_answer prose_answer "ErrorString ''invalid character''" zero_AIAnalysisResult
      "''{not json}''"]
    st
  show "fst (analyzeLogsWithAI 1 ?w dummy_params) =
      Return (''{not json}'', zero_AIAnalysisResult, None)"
    by (simp add: trim ex un f1 f2)
      (simp add: example_world_def concatCandidates_def)
next
  let ?w = "example_world direct_cfg ''no braces at all '' agent_answer_150"
  from example_world_first_call obtain st where
    st: "retryWithBackoff 1 (w_runtime ?w) None (generate_operation ?w dummy_params) 3
      = Some (None, st)" by blast
  have trim: "w_TrimSpace ?w ''no braces at all '' = ''no braces at all''"
    by (simp add: example_world_def ascii_TrimSpace_def is_space_def)
  have ex: "extractFirstJSON ''no braces at all'' = []"
    by (simp add: extractFirstJSON_def strings_IndexByte_def)
  have un: "w_Unmarshal ?w = example_Unmarshal"
    by (simp add: example_world_def)
  have f1: "example_Unmarshal ''no braces at all'' zero_AIAnalysisResult =
      (Some (ErrorString ''invalid character''), zero_AIAnalysisResult)"
    by (simp add: example_Unmarshal_def ok_json_def bad_json_def sure_json_def)
  from analyzeLogsWithAI_unparsable
    [of ?w "''an-api-key''" 1 dummy_params st "Some [Candidate (Some [''no braces at all ''])]"
      "''no braces at all ''" "''no braces at all''" "ErrorString ''invalid character''"
      zero_AIAnalysisResult "[]"]
    st
  show "fst (analyzeLogsWithAI 1 ?w dummy_params) =
      Return (''no braces at all'', zero_AIAnalysisResult, None)"
    by (simp add: trim ex un f1)
      (simp add: example_world_def concatCandidates_def)
next
  let ?w = world_type_mismatch
  let ?e = "ErrorString ''json: cannot unmarshal string into Go struct field AIAnalysisResult.promote of type bool''"
  let ?r = "\<lparr>Text = ''x'', Promote = False, Confidence = 80\<rparr>"
  from world_type_mismatch_first_call obtain st where
    st: "retryWithBackoff 1 (w_runtime ?w) None (generate_operation ?w dummy_params) 3
      = Some (None, st)" by blast
  have trim: "w_TrimSpace ?w mismatch_json = mismatch_json"
    by (simp add: world_type_mismatch_def example_world_def ascii_TrimSpace_def is_space_def
        mismatch_json_def)
  have ex: "extractFirstJSON mismatch_json = mismatch_json"
    by (simp add: mismatch_json_def extractFirstJSON_def strings_IndexByte_def
        extract_scan.simps)
  have un: "w_Unmarshal ?w = mismatch_Unmarshal"
    by (simp add: world_type_mismatch_def example_world_def)
  have f1: "mismatch_Unmarshal mismatch_json zero_AIAnalysisResult = (Some ?e, ?r)"
    by (simp add: mismatch_Unmarshal_def zero_AIAnalysisResult_def)
  have f2: "mismatch_Unmarshal mismatch_json ?r = (Some ?e, ?r)"
    by (simp add: mismatch_Unmarshal_def)
  have ne: "mismatch_json \<noteq> []"
    by (simp add: mismatch_json_def)
  from analyzeLogsWithAI_unparsable
    [of ?w "''an-api-key''" 1 dummy_params st "Some [Candidate (Some [mismatch_json])]"
      mismatch_json mismatch_json ?e ?r mismatch_json]
    st
  show "fst (analyzeLogsWithAI 1 ?w dummy_params) = Return (mismatch_json, ?r, None)"
    by (simp add: trim ex un f1 f2 ne)
      (simp add: world_type_mismatch_def example_world_def concatCandidates_def)
qed

text \<open>Two runs of the analyzers: an agent that answers with confidence 150, and a model
  whose JSON text says 150.\<close>

lemma agent_answers_150:
  "analyzeWithKubernetesAgent (example_world agent_cfg sure_json agent_answer_150)
      ''default'' ''canary-demo-7d4b9c-x2x7p'' dummy_logsContext =
     (Return (''{}'', \<lparr>Text = ''canary looks fine'', Promote = True, Confidence = 150\<rparr>, None),
      [CallHttpGet ''http://kubernetes-agent.argo-rollouts.svc.cluster.local:8080/'',
       CallHttpPost ''http://kubernetes-agent.argo-rollouts.svc.cluster.local:8080/a2a/analyze''])"
proof -
  have split: "splitLogs dummy_logsContext = Inr ([CHR 0x0A] @ ''dummy'' @ [CHR 0x0A, CHR 0x0A],
      [CHR 0x0A] @ ''dummy'')"
    by (simp add: splitLogs_def findIndex_def findIndex_loop.simps go_slice_def
        stableMarker_def canaryMarker_def dummy_logsContext_def)
  show ?thesis
    by (simp add: analyzeWithKubernetesAgent_def HealthCheck_def AnalyzeWithAgent_def agentURL_def
        analyze_request_def split
        example_world_def agent_answer_150_def Let_def)
qed

lemma model_answers_150:
  "analyzeLogsWithAI 1 (example_world agent_cfg sure_json agent_answer_150) dummy_params =
     (Return (sure_json, \<lparr>Text = ''sure'', Promote = True, Confidence = 150\<rparr>, None),
      [CallGetSecretValue ''argo-rollouts'' ''google_api_key'',
       CallGenerateContent ''gemini-2.0-flash'' 1])"
proof -
  have trim: "ascii_TrimSpace sure_json = sure_json"
    by (simp add: ascii_TrimSpace_def is_space_def sure_json_def)
  have un: "example_Unmarshal sure_json zero_AIAnalysisResult =
      (None, \<lparr>Text = ''sure'', Promote = True, Confidence = 150\<rparr>)"
    by (simp add: example_Unmarshal_def ok_json_def bad_json_def sure_json_def)
  show ?thesis
    by (simp add: analyzeLogsWithAI_def dummy_params_def
        example_world_def generate_operation_def retryWithBackoff_def Reset_def
        operationWithLogging_def concatCandidates_def parse_analysis_def trim un Let_def)
qed

text \<open>
  Claim C8, as stated: every decision record the engine produces, in direct and in
  delegated mode, has its confidence clamped into \<open>[0, 100]\<close> by the component that
  produces it. Neither component clamps: the two runs above, through the dispatcher,
  give records with confidence 150.
\<close>

theorem confidence_150_not_clamped:
  "fst (analyzeWithMode 1 (example_world agent_cfg sure_json agent_answer_150) ''agent''
          ''gemini-2.0-flash'' dummy_logsContext ''default'' ''canary-demo-7d4b9c-x2x7p'' []) =
     Return (''{}'', \<lparr>Text = ''canary looks fine'', Promote = True, Confidence = 150\<rparr>, None) \<and>
   fst (analyzeWithMode 1 (example_world agent_cfg sure_json agent_answer_150) ''default''
          ''gemini-2.0-flash'' dummy_logsContext [] [] []) =
     Return (sure_json, \<lparr>Text = ''sure'', Promote = True, Confidence = 150\<rparr>, None)"
  using agent_answers_150 model_answers_150
  by (simp add: analyzeWithMode_def AnalysisModeAgent_def dummy_params_def)

text \<open>Where the record of each analyzer comes from.\<close>

lemma AnalyzeWithAgent_response:
  "AnalyzeWithAgent w baseURL namespace podName stableLogs canaryLogs = Inr resp \<longleftrightarrow>
   w_httpPost w (baseURL @ ''/a2a/analyze'')
     (analyze_request namespace podName stableLogs canaryLogs) = Inr (200, Inr resp)"
  unfolding AnalyzeWithAgent_def Let_def
  by (auto split: sum.splits prod.splits if_splits)

lemma analyzeWithKubernetesAgent_record:
  assumes "analyzeWithKubernetesAgent w namespace podName logsContext =
      (Return (raw, r, None), calls)"
  shows "\<exists>stableLogs canaryLogs resp.
      splitLogs logsContext = Inr (stableLogs, canaryLogs) \<and>
      AnalyzeWithAgent w (agentURL w) namespace podName stableLogs canaryLogs = Inr resp \<and>
      r = \<lparr>Text = Analysis resp, Promote = resp_Promote resp,
           Confidence = resp_Confidence resp\<rparr>"
  using assms unfolding analyzeWithKubernetesAgent_def Let_def
  by (auto split: option.splits sum.splits prod.splits if_splits)

lemma analyzeLogsWithAI_record:
  assumes "analyzeLogsWithAI fuel w params = (Return (raw, r, None), calls)"
  shows "\<exists>st resp txt.
      retryWithBackoff fuel (w_runtime w) None (generate_operation w params) 3 =
        Some (None, st) \<and>
      w_GenerateContent w (ModelName params) (request_text params) (attempt st) = Inr resp \<and>
      concatCandidates resp = Inr txt \<and>
      (raw, r) = parse_analysis w txt"
proof -
  from assms obtain st where
    st: "retryWithBackoff fuel (w_runtime w) None (generate_operation w params) 3 =
      Some (None, st)"
    unfolding analyzeLogsWithAI_def Let_def
    by (auto split: option.splits sum.splits prod.splits if_splits)
  from retryWithBackoff_success[OF st]
  obtain resp where
    resp: "w_GenerateContent w (ModelName params) (request_text params) (attempt st) = Inr resp"
    by (auto simp: generate_operation_def split: sum.splits)
  from assms st resp obtain t where
    "concatCandidates resp = Inr t" "(raw, r) = parse_analysis w t"
    unfolding analyzeLogsWithAI_def Let_def
    by (auto split: option.splits sum.splits prod.splits if_splits)
  with st resp show ?thesis by blast
qed

text \<open>
  Claim C8, amended. The components hand on the confidence as they receive it, without
  clamping. In delegated mode every record returned with a nil error carries the
  promote and the confidence of the response the agent gave, with status 200, to the
  request posted for the two parts of the logs. In direct mode every record returned
  with a nil error is the record as \<open>json.Unmarshal\<close> left it: decoded from the trimmed
  text of the response of the last call of the model into the zero value or, when that
  failed and there is a block in braces, from that block into the same record. So the
  confidence of a record lies in \<open>[0, 100]\<close> only when the value received does.
\<close>

theorem confidence_as_received:
  "(analyzeWithKubernetesAgent w namespace podName logsContext = (Return (raw, r, None), calls) \<longrightarrow>
      (\<exists>stableLogs canaryLogs resp.
         splitLogs logsContext = Inr (stableLogs, canaryLogs) \<and>
         w_httpPost w (agentURL w @ ''/a2a/analyze'')
           (analyze_request namespace podName stableLogs canaryLogs) = Inr (200, Inr resp) \<and>
         r = \<lparr>Text = Analysis resp, Promote = resp_Promote resp,
              Confidence = resp_Confidence resp\<rparr>)) \<and>
   (analyzeLogsWithAI fuel w params = (Return (raw', r', None), calls') \<longrightarrow>
      (\<exists>st resp txt.
         retryWithBackoff fuel (w_runtime w) None (generate_operation w params) 3 =
           Some (None, st) \<and>
         w_GenerateContent w (ModelName params) (request_text params) (attempt st) = Inr resp \<and>
         concatCandidates resp = Inr txt \<and>
         r' = (case w_Unmarshal w (w_TrimSpace w txt) zero_AIAnalysisResult of
                 (None, obj) \<Rightarrow> obj
               | (Some e, obj) \<Rightarrow>
                   if extractFirstJSON (w_TrimSpace w txt) \<noteq> []
                   then snd (w_Unmarshal w (extractFirstJSON (w_TrimSpace w txt)) obj)
                   else obj)))"
proof (intro conjI impI)
  assume "analyzeWithKubernetesAgent w namespace podName logsContext = (Return (raw, r, None), calls)"
  from analyzeWithKubernetesAgent_record[OF this]
  show "\<exists>stableLogs canaryLogs resp.
      splitLogs logsContext = Inr (stableLogs, canaryLogs) \<and>
      w_httpPost w (agentURL w @ ''/a2a/analyze'')
        (analyze_request namespace podName stableLogs canaryLogs) = Inr (200, Inr resp) \<and>
      r = \<lparr>Text = Analysis resp, Promote = resp_Promote resp,
           Confidence = resp_Confidence resp\<rparr>"
    by (simp add: AnalyzeWithAgent_response)
next
  assume "analyzeLogsWithAI fuel w params = (Return (raw', r', None), calls')"
  from analyzeLogsWithAI_record[OF this] obtain st resp t where
    st: "retryWithBackoff fuel (w_runtime w) None (generate_operation w params) 3 =
      Some (None, st)"
    and resp: "w_GenerateContent w (ModelName params) (request_text params) (attempt st) =
      Inr resp"
    and t: "concatCandidates resp = Inr t"
    and p: "(raw', r') = parse_analysis w t"
    by blast
  from p have "r' = (case w_Unmarshal w (w_TrimSpace w t) zero_AIAnalysisResult of
                 (None, obj) \<Rightarrow> obj
               | (Some e, obj) \<Rightarrow>
                   if extractFirstJSON (w_TrimSpace w t) \<noteq> []
                   then snd (w_Unmarshal w (extractFirstJSON (w_TrimSpace w t)) obj)
                   else obj)"
    by (auto simp: parse_analysis_def Let_def split: prod.splits option.splits if_splits)
  with st resp t show "\<exists>st resp txt.
      retryWithBackoff fuel (w_runtime w) None (generate_operation w params) 3 =
        Some (None, st) \<and>
      w_GenerateContent w (ModelName params) (request_text params) (attempt st) = Inr resp \<and>
      concatCandidates resp = Inr txt \<and>
      r' = (case w_Unmarshal w (w_TrimSpace w txt) zero_AIAnalysisResult of
              (None, obj) \<Rightarrow> obj
            | (Some e, obj) \<Rightarrow>
                if extractFirstJSON (w_TrimSpace w txt) \<noteq> []
                then snd (w_Unmarshal w (extractFirstJSON (w_TrimSpace w txt)) obj)
                else obj)"
    by blast
qed

text \<open>
  The theorem at the two runs above: the agent's response to the request posted has
  confidence 150, and so has the record decoded from the text of the model.
\<close>

theorem confidence_as_received_witness:
  "w_httpPost (example_world agent_cfg sure_json agent_answer_150)
     (agentURL (example_world agent_cfg sure_json agent_answer_150) @ ''/a2a/analyze'')
     (analyze_request ''default'' ''canary-demo-7d4b9c-x2x7p''
        ([CHR 0x0A] @ ''dummy'' @ [CHR 0x0A, CHR 0x0A]) ([CHR 0x0A] @ ''dummy'')) =
     Inr (200, Inr agent_answer_150) \<and>
   resp_Confidence agent_answer_150 = 150 \<and>
   w_Unmarshal (example_world agent_cfg sure_json agent_answer_150)
     (w_TrimSpace (example_world agent_cfg sure_json agent_answer_150) sure_json)
     zero_AIAnalysisResult =
     (None, \<lparr>Text = ''sure'', Promote = True, Confidence = 150\<rparr>)"
proof -
  let ?w = "example_world agent_cfg sure_json agent_answer_150"
  note inst = confidence_as_received
    [where w = ?w
       and namespace = "''default''" and podName = "''canary-demo-7d4b9c-x2x7p''"
       and logsContext = dummy_logsContext and raw = "''{}''"
       and r = "\<lparr>Text = ''canary looks fine'', Promote = True, Confidence = 150\<rparr>"
       and calls = "[CallHttpGet ''http://kubernetes-agent.argo-rollouts.svc.cluster.local:8080/'',
          CallHttpPost ''http://kubernetes-agent.argo-rollouts.svc.cluster.local:8080/a2a/analyze'']"
       and fuel = 1 and params = dummy_params and raw' = sure_json
       and r' = "\<lparr>Text = ''sure'', Promote = True, Confidence = 150\<rparr>"
       and calls' = "[CallGetSecretValue ''argo-rollouts'' ''google_api_key'',
          CallGenerateContent ''gemini-2.0-flash'' 1]"]
  have split: "splitLogs dummy_logsContext = Inr ([CHR 0x0A] @ ''dummy'' @ [CHR 0x0A, CHR 0x0A],
      [CHR 0x0A] @ ''dummy'')"
    by (simp add: splitLogs_def findIndex_def findIndex_loop.simps go_slice_def
        stableMarker_def canaryMarker_def dummy_logsContext_def)
  from mp[OF conjunct1[OF inst] agent_answers_150] obtain s c resp where
    a: "splitLogs dummy_logsContext = Inr (s, c)"
       "w_httpPost ?w (agentURL ?w @ ''/a2a/analyze'')
          (analyze_request ''default'' ''canary-demo-7d4b9c-x2x7p'' s c) = Inr (200, Inr resp)"
       "\<lparr>Text = ''canary looks fine'', Promote = True, Confidence = 150\<rparr> =
          \<lparr>Text = Analysis resp, Promote = resp_Promote resp,
           Confidence = resp_Confidence resp\<rparr>"
    by blast
  from a(1) split have sc: "s = [CHR 0x0A] @ ''dummy'' @ [CHR 0x0A, CHR 0x0A]"
      "c = [CHR 0x0A] @ ''dummy''"
    by simp_all
  have post: "w_httpPost ?w (agentURL ?w @ ''/a2a/analyze'')
      (analyze_request ''default'' ''canary-demo-7d4b9c-x2x7p''
        ([CHR 0x0A] @ ''dummy'' @ [CHR 0x0A, CHR 0x0A]) ([CHR 0x0A] @ ''dummy'')) =
      Inr (200, Inr resp)"
    using a(2) unfolding sc .
  have resp: "resp = agent_answer_150"
    using post by (simp add: example_world_def)
  from mp[OF conjunct2[OF inst] model_answers_150] obtain st mresp t where
    m: "retryWithBackoff 1 (w_runtime ?w) None (generate_operation ?w dummy_params) 3 =
          Some (None, st)"
       "w_GenerateContent ?w (ModelName dummy_params) (request_text dummy_params) (attempt st) =
          Inr mresp"
       "concatCandidates mresp = Inr t"
       "\<lparr>Text = ''sure'', Promote = True, Confidence = 150\<rparr> =
          (case w_Unmarshal ?w (w_TrimSpace ?w t) zero_AIAnalysisResult of
             (None, obj) \<Rightarrow> obj
           | (Some e, obj) \<Rightarrow>
               if extractFirstJSON (w_TrimSpace ?w t) \<noteq> []
               then snd (w_Unmarshal ?w (extractFirstJSON (w_TrimSpace ?w t)) obj)
               else obj)"
    by blast
  from m(2,3) have t: "t = sure_json"
    by (auto simp: example_world_def concatCandidates_def)
  have trim: "ascii_TrimSpace sure_json = sure_json"
    by (simp add: ascii_TrimSpace_def is_space_def sure_json_def)
  have un: "w_Unmarshal ?w (w_TrimSpace ?w sure_json) zero_AIAnalysisResult =
      (None, \<lparr>Text = ''sure'', Promote = True, Confidence = 150\<rparr>)"
    by (simp add: example_world_def trim)
      (simp add: example_Unmarshal_def ok_json_def bad_json_def sure_json_def)
  from post resp un show ?thesis
    by (simp add: agent_answer_150_def)
qed

end
